theory Spec2Isabelle
  imports Complex_Main
begin

section \<open>JavaScript values\<close>

text \<open>
  Request bodies, stored documents and response bodies are JSON-like values.  Numbers are
  rationals (rounding of doubles plays no part in the handlers); \<open>JNaN\<close> is the
  Not-a-Number value, which no JSON body contains but \<^verbatim>\<open>parseInt\<close> and
  \<^verbatim>\<open>parseFloat\<close> may return.  An object is an association list in insertion order;
  \<^verbatim>\<open>undefined\<close> is the absence of a key, \<open>None\<close>.
\<close>

datatype jsval =
    JNull
  | JBool bool
  | JNum rat
  | JNaN
  | JStr string
  | JArr "jsval list"
  | JObj "(string \<times> jsval) list"

type_synonym obj = "(string \<times> jsval) list"

text \<open>Truthiness, as \<^verbatim>\<open>if (x)\<close>, \<^verbatim>\<open>!x\<close> and \<^verbatim>\<open>x || d\<close> test it.\<close>

fun truthy :: "jsval \<Rightarrow> bool" where
  "truthy JNull = False"
| "truthy (JBool b) = b"
| "truthy (JNum n) = (n \<noteq> 0)"
| "truthy JNaN = False"
| "truthy (JStr s) = (s \<noteq> [])"
| "truthy (JArr _) = True"
| "truthy (JObj _) = True"

text \<open>A possibly undefined value: \<^verbatim>\<open>undefined\<close> is falsy.\<close>

fun truthy_opt :: "jsval option \<Rightarrow> bool" where
  "truthy_opt None = False"
| "truthy_opt (Some v) = truthy v"

text \<open>\<^verbatim>\<open>x || d\<close> on a possibly undefined \<open>x\<close>.\<close>

definition or_default :: "jsval option \<Rightarrow> jsval \<Rightarrow> jsval" where
  "or_default x d = (case x of Some v \<Rightarrow> if truthy v then v else d | None \<Rightarrow> d)"

text \<open>Property read \<^verbatim>\<open>o[k]\<close> and property write \<^verbatim>\<open>o[k] = v\<close> (an existing key
  keeps its position, a new key goes last).\<close>

definition obj_get :: "obj \<Rightarrow> string \<Rightarrow> jsval option" where
  "obj_get ob k = map_of ob k"

fun obj_set :: "obj \<Rightarrow> string \<Rightarrow> jsval \<Rightarrow> obj" where
  "obj_set [] k v = [(k, v)]"
| "obj_set ((k', v') # ob) k v = (if k' = k then (k, v) # ob else (k', v') # obj_set ob k v)"

text \<open>Object spread \<^verbatim>\<open>{...a, ...b}\<close>; the store's field-wise
  \<^verbatim>\<open>update(b)\<close> of a document \<open>a\<close> has the same effect.\<close>

definition obj_merge :: "obj \<Rightarrow> obj \<Rightarrow> obj" where
  "obj_merge a b = fold (\<lambda>(k, v) ob. obj_set ob k v) b a"

subsection \<open>Strings\<close>

text \<open>\<^verbatim>\<open>s.startsWith(p)\<close>.\<close>

definition startsWith :: "string \<Rightarrow> string \<Rightarrow> bool" where
  "startsWith s p = (take (length p) s = p)"

text \<open>\<^verbatim>\<open>s.indexOf(p) >= 0\<close>: \<open>p\<close> occurs in \<open>s\<close>.\<close>

fun occurs :: "string \<Rightarrow> string \<Rightarrow> bool" where
  "occurs p [] = (p = [])"
| "occurs p (c # cs) = (startsWith (c # cs) p \<or> occurs p cs)"

text \<open>
  \<^verbatim>\<open>s.split(sep)\<close> for a string separator: the pieces between the occurrences of
  \<open>sep\<close>, found from the left and not overlapping; the empty separator splits into
  characters.
\<close>

function split_at :: "string \<Rightarrow> string \<Rightarrow> string list" where
  "split_at sep [] = [[]]"
| "split_at sep (c # cs) =
     (if sep \<noteq> [] \<and> startsWith (c # cs) sep
      then [] # split_at sep (drop (length sep) (c # cs))
      else (case split_at sep cs of
              p # ps \<Rightarrow> (c # p) # ps
            | [] \<Rightarrow> [[c]]))"
  by pat_completeness auto
termination
  by (relation "measure (\<lambda>(sep, s). length s)") (auto simp: neq_Nil_conv)

definition split :: "string \<Rightarrow> string \<Rightarrow> string list" where
  "split s sep = (if sep = [] then map (\<lambda>c. [c]) s else split_at sep s)"

text \<open>Array read \<^verbatim>\<open>xs[i]\<close>: \<^verbatim>\<open>undefined\<close> out of range.\<close>

definition at_index :: "'a list \<Rightarrow> nat \<Rightarrow> 'a option" where
  "at_index xs i = (if i < length xs then Some (xs ! i) else None)"

section \<open>Session authenticator\<close>

text \<open>
  The identity provider is an external service: its two verification calls are taken as
  parameters.  A call either throws (\<open>Inl\<close>, with the reason) or returns the decoded
  claim set.  The id token handed to \<^verbatim>\<open>verifyIdToken\<close> is the possibly undefined
  \<^verbatim>\<open>authHeader.split('Bearer ')[1]\<close>.
\<close>

record claims =
  uid :: string
  other_claims :: obj

datatype auth_error = AuthError (code: string) (message: string)

record auth_service =
  verifySessionCookie :: "string \<Rightarrow> bool \<Rightarrow> auth_error + claims"
  verifyIdToken :: "string option \<Rightarrow> auth_error + claims"

record response =
  status :: nat
  body :: jsval

text \<open>The part of a request the authenticator reads: \<^verbatim>\<open>req.cookies.session\<close> and
  \<^verbatim>\<open>req.headers.authorization\<close>.\<close>

record credentials =
  cookie_session :: "string option"
  header_authorization :: "string option"

text \<open>The middleware either answers itself or attaches the claims to the request
  (\<^verbatim>\<open>req.user = decodedClaims\<close>) and calls \<^verbatim>\<open>next()\<close>.\<close>

datatype auth_outcome = Responded response | Next_with claims

definition json_error :: "string \<Rightarrow> jsval" where
  "json_error msg = JObj [(''error'', JStr msg)]"

definition invalid_token :: response where
  "invalid_token = \<lparr>status = 401, body = json_error ''Unauthorized - Invalid token''\<rparr>"

definition decoded :: "auth_error + claims \<Rightarrow> auth_outcome" where
  "decoded r = (case r of Inl e \<Rightarrow> Responded invalid_token | Inr c \<Rightarrow> Next_with c)"

text \<open>A string that is defined and not empty: what \<^verbatim>\<open>if (s)\<close> lets through.\<close>

definition truthy_str :: "string option \<Rightarrow> bool" where
  "truthy_str s = (case s of Some (_ # _) \<Rightarrow> True | _ \<Rightarrow> False)"

text \<open>
  \<^verbatim>\<open>verifyAuth\<close> is repeated in the three route files; the copies differ only in the
  message of the answer to a request with no credential, the first parameter here.
\<close>

definition verifyAuth :: "string \<Rightarrow> auth_service \<Rightarrow> credentials \<Rightarrow> auth_outcome" where
  "verifyAuth no_credential auth req =
     (let sessionCookie = cookie_session req;
          authHeader = header_authorization req
      in if truthy_str sessionCookie
         then decoded (verifySessionCookie auth (the sessionCookie) True)
         else if truthy_str authHeader \<and> startsWith (the authHeader) ''Bearer ''
         then (let idToken = at_index (split (the authHeader) ''Bearer '') 1
               in decoded (verifyIdToken auth idToken))
         else Responded \<lparr>status = 401, body = json_error no_credential\<rparr>)"

definition verifyAuth_organizations :: "auth_service \<Rightarrow> credentials \<Rightarrow> auth_outcome" where
  "verifyAuth_organizations = verifyAuth ''Unauthorized - No valid authentication found''"

definition verifyAuth_gyms :: "auth_service \<Rightarrow> credentials \<Rightarrow> auth_outcome" where
  "verifyAuth_gyms = verifyAuth ''Unauthorized - No valid authentication found''"

definition verifyAuth_devices :: "auth_service \<Rightarrow> credentials \<Rightarrow> auth_outcome" where
  "verifyAuth_devices = verifyAuth ''Unauthorized''"

section \<open>The document store\<close>

text \<open>
  The store is an external service; the model keeps what the handlers can observe of it.
  A collection lists its documents with their ids, in insertion order.  Gyms live in the
  sub-collection \<^verbatim>\<open>organizations/{orgId}/gyms\<close>, so a gym is keyed by the pair of
  ids.  The model holds these collections and no other: a document path that leads
  elsewhere holds no document.  Store calls fail only where the model says so (no network
  failure; what the store's backend refuses beyond its client, such as reserved ids, is
  outside the model).
\<close>

type_synonym 'k collection = "('k \<times> obj) list"

record store =
  organizations :: "string collection"
  devices :: "string collection"
  gyms :: "(string \<times> string) collection"
  audit_logs :: "string collection"

text \<open>\<^verbatim>\<open>collection.doc(id).get()\<close>: \<open>None\<close> when \<^verbatim>\<open>doc.exists\<close> is false,
  otherwise \<^verbatim>\<open>doc.data()\<close>.\<close>

definition doc_get :: "'k collection \<Rightarrow> 'k \<Rightarrow> obj option" where
  "doc_get c i = map_of c i"

text \<open>\<^verbatim>\<open>collection.where(field, "==", v)\<close>, \<^verbatim>\<open>.limit(n)\<close> and
  \<^verbatim>\<open>snapshot.empty\<close>.\<close>

definition where_eq :: "'k collection \<Rightarrow> string \<Rightarrow> jsval \<Rightarrow> 'k collection" where
  "where_eq c field v = filter (\<lambda>(i, d). obj_get d field = Some v) c"

definition limit :: "nat \<Rightarrow> 'a list \<Rightarrow> 'a list" where
  "limit n c = take n c"

definition snapshot_empty :: "'a list \<Rightarrow> bool" where
  "snapshot_empty snapshot = (snapshot = [])"

text \<open>\<^verbatim>\<open>collection.add(data)\<close> under the id the store generates,
  \<^verbatim>\<open>docRef.update(data)\<close> (field-wise, the other fields stay) and
  \<^verbatim>\<open>docRef.delete()\<close>.\<close>

definition doc_add :: "'k collection \<Rightarrow> 'k \<Rightarrow> obj \<Rightarrow> 'k collection" where
  "doc_add c i d = c @ [(i, d)]"

definition doc_update :: "'k collection \<Rightarrow> 'k \<Rightarrow> obj \<Rightarrow> 'k collection" where
  "doc_update c i u = map (\<lambda>(j, d). if j = i then (j, obj_merge d u) else (j, d)) c"


text \<open>
  The SDK throws where a handler hands it a value it refuses: a document path that is no
  document path, a write of an \<^verbatim>\<open>undefined\<close> field, a query it cannot run.  Every
  handler catches the error and answers 500 with its message.
\<close>

datatype sdk_error = Invalid_document_path | Undefined_field_value | Query_failed string

text \<open>
  \<^verbatim>\<open>collection.doc(x)\<close> on a top-level collection, for a value \<open>x\<close> that comes
  from a request.  The client refuses what is not a string, the empty string and a string
  that holds \<^verbatim>\<open>//\<close>; it splits the string at \<^verbatim>\<open>/\<close> and drops the empty
  segments; and it refuses the path unless, appended to the collection's name, it has an
  even number of segments.  \<open>None\<close> is the refusal (the call throws), \<open>Some\<close> the
  segments below the collection: one segment is the id of a document of the collection,
  three or more lead into a sub-collection.  The reference's \<^verbatim>\<open>id\<close> is the last
  segment.  The update and delete routes are given the id of a stored document in their
  path and look it up as it is.
\<close>

definition doc_path :: "jsval \<Rightarrow> string list option" where
  "doc_path x =
     (case x of
        JStr s \<Rightarrow>
          if s = [] \<or> occurs ''//'' s then None
          else (let segments = filter (\<lambda>p. p \<noteq> []) (split s ''/'')
                in if odd (length segments) then Some segments else None)
      | _ \<Rightarrow> None)"

definition doc_id :: "string list \<Rightarrow> string" where
  "doc_id path = last path"

text \<open>
  What a handler consumes from outside the repository, besides the store's contents: the
  clock (\<open>now env k\<close> is the \<open>k\<close>-th \<^verbatim>\<open>new Date().toISOString()\<close> of the request),
  the id the store generates for \<^verbatim>\<open>add\<close>, the messages of the SDK's errors, the
  built-ins \<^verbatim>\<open>parseInt\<close> and \<^verbatim>\<open>parseFloat\<close>, and the store's query
  \<^verbatim>\<open>.orderBy("createdAt", "desc").limit(n).get()\<close> on a collection.
\<close>

record env =
  now :: "nat \<Rightarrow> string"
  auto_id :: string
  error_message :: "sdk_error \<Rightarrow> string"
  parseInt :: "jsval \<Rightarrow> jsval"
  parseFloat :: "jsval \<Rightarrow> jsval"
  orderBy_createdAt_desc_limit :: "string collection \<Rightarrow> jsval \<Rightarrow> sdk_error + string collection"

text \<open>\<^verbatim>\<open>{ id: doc.id, ...doc.data() }\<close>.\<close>

definition with_id :: "string \<Rightarrow> obj \<Rightarrow> obj" where
  "with_id i d = obj_merge [(''id'', JStr i)] d"

text \<open>\<^verbatim>\<open>res.status(500).json({ error: e, message: error.message })\<close>.\<close>

definition failed :: "env \<Rightarrow> string \<Rightarrow> sdk_error \<Rightarrow> response" where
  "failed env e err =
     \<lparr>status = 500, body = JObj [(''error'', JStr e), (''message'', JStr (error_message env err))]\<rparr>"

text \<open>The parsed query string: a parameter is a string, or an array or an object when the
  query repeats or nests it; a parameter left out is \<^verbatim>\<open>undefined\<close>.\<close>

type_synonym query = obj

text \<open>
  The document at a path below \<^verbatim>\<open>organizations\<close> and below \<^verbatim>\<open>devices\<close>:
  an organization or a device under its id, a gym under
  \<^verbatim>\<open>orgId/gyms/gymId\<close>, nothing anywhere else.
\<close>

definition organization_at :: "store \<Rightarrow> string list \<Rightarrow> obj option" where
  "organization_at st path =
     (case path of
        [i] \<Rightarrow> doc_get (organizations st) i
      | [org, sub, gym] \<Rightarrow> if sub = ''gyms'' then doc_get (gyms st) (org, gym) else None
      | _ \<Rightarrow> None)"

definition device_at :: "store \<Rightarrow> string list \<Rightarrow> (string \<times> obj) option" where
  "device_at st path =
     (case path of
        [i] \<Rightarrow> map_option (\<lambda>d. (i, d)) (doc_get (devices st) i)
      | _ \<Rightarrow> None)"

section \<open>Organization routes\<close>

definition get_organizations :: "env \<Rightarrow> query \<Rightarrow> store \<Rightarrow> response" where
  "get_organizations env q st =
     (let limit_param = (case obj_get q ''limit'' of None \<Rightarrow> JNum 100 | Some l \<Rightarrow> l);
          organizationId = obj_get q ''organizationId''
      in if truthy_opt organizationId
         then (case doc_path (the organizationId) of
                 None \<Rightarrow> failed env ''Failed to fetch organizations'' Invalid_document_path
               | Some path \<Rightarrow>
                   (case organization_at st path of
                      None \<Rightarrow> \<lparr>status = 404, body = json_error ''Organization not found''\<rparr>
                    | Some d \<Rightarrow>
                        \<lparr>status = 200,
                         body = JObj [(''success'', JBool True),
                                      (''data'', JObj (with_id (doc_id path) d))]\<rparr>))
         else (case orderBy_createdAt_desc_limit env (organizations st) (parseInt env limit_param) of
                 Inl err \<Rightarrow> failed env ''Failed to fetch organizations'' err
               | Inr snapshot \<Rightarrow>
                   (let orgs = map (\<lambda>(i, d). JObj (with_id i d)) snapshot
                    in \<lparr>status = 200,
                        body = JObj [(''success'', JBool True),
                                     (''data'', JArr orgs),
                                     (''count'', JNum (of_nat (length orgs)))]\<rparr>)))"

definition post_organizations :: "env \<Rightarrow> claims \<Rightarrow> obj \<Rightarrow> store \<Rightarrow> response \<times> store" where
  "post_organizations env user b st =
     (let name = obj_get b ''name''; email = obj_get b ''email''; phone = obj_get b ''phone'';
          address = obj_get b ''address''; status_field = obj_get b ''status''
      in if \<not> truthy_opt name \<or> \<not> truthy_opt email
         then (\<lparr>status = 400,
                body = JObj [(''error'', JStr ''Validation failed''),
                             (''details'', JArr [JStr ''Name and email are required''])]\<rparr>, st)
         else if \<not> snapshot_empty (limit 1 (where_eq (organizations st) ''email'' (the email)))
         then (\<lparr>status = 409,
                body = json_error ''Organization with this email already exists''\<rparr>, st)
         else
           (let organizationData =
                  [(''name'', the name),
                   (''email'', the email),
                   (''phone'', or_default phone (JStr [])),
                   (''address'', or_default address (JStr [])),
                   (''status'', or_default status_field (JStr ''active'')),
                   (''createdAt'', JStr (now env 0)),
                   (''updatedAt'', JStr (now env 1)),
                   (''createdBy'', JStr (uid user))];
                st' = st\<lparr>organizations := doc_add (organizations st) (auto_id env) organizationData\<rparr>;
                createdDoc = doc_get (organizations st') (auto_id env)
            in (\<lparr>status = 201,
                 body = JObj [(''success'', JBool True),
                              (''message'', JStr ''Organization created successfully''),
                              (''data'', JObj (with_id (auto_id env)
                                                (case createdDoc of Some d \<Rightarrow> d | None \<Rightarrow> [])))]\<rparr>,
                st')))"

text \<open>\<^verbatim>\<open>if (v) updateData[k] = v\<close> and \<^verbatim>\<open>if (v !== undefined) updateData[k] = v\<close>.\<close>

definition set_if_truthy :: "obj \<Rightarrow> string \<Rightarrow> jsval option \<Rightarrow> obj" where
  "set_if_truthy u k v = (if truthy_opt v then obj_set u k (the v) else u)"

definition set_if_defined :: "obj \<Rightarrow> string \<Rightarrow> jsval option \<Rightarrow> obj" where
  "set_if_defined u k v = (case v of Some x \<Rightarrow> obj_set u k x | None \<Rightarrow> u)"

text \<open>\<^verbatim>\<open>updatedDoc.data()\<close> spread into the answer; the spread of
  \<^verbatim>\<open>undefined\<close> adds nothing.\<close>

definition data_of :: "obj option \<Rightarrow> obj" where
  "data_of d = (case d of Some x \<Rightarrow> x | None \<Rightarrow> [])"

definition put_organizations_id ::
  "env \<Rightarrow> claims \<Rightarrow> string \<Rightarrow> obj \<Rightarrow> store \<Rightarrow> response \<times> store" where
  "put_organizations_id env user i b st =
     (let name = obj_get b ''name''; email = obj_get b ''email''; phone = obj_get b ''phone'';
          address = obj_get b ''address''; status_field = obj_get b ''status''
      in case doc_get (organizations st) i of
           None \<Rightarrow>
             (\<lparr>status = 404,
               body = JObj [(''success'', JBool False),
                            (''error'', JStr ''Organization not found'')]\<rparr>, st)
         | Some doc \<Rightarrow>
             (let updateData = [(''updatedAt'', JStr (now env 0)),
                                (''lastModifiedBy'', JStr (uid user))];
                  updateData = set_if_truthy updateData ''name'' name;
                  updateData = set_if_truthy updateData ''email'' email;
                  updateData = set_if_defined updateData ''phone'' phone;
                  updateData = set_if_defined updateData ''address'' address;
                  updateData = set_if_truthy updateData ''status'' status_field;
                  st' = st\<lparr>organizations := doc_update (organizations st) i updateData\<rparr>;
                  updatedDoc = doc_get (organizations st') i
              in (\<lparr>status = 200,
                   body = JObj [(''success'', JBool True),
                                (''message'', JStr ''Organization updated successfully''),
                                (''data'', JObj (with_id i (data_of updatedDoc)))]\<rparr>,
                  st')))"


section \<open>Device routes\<close>

text \<open>The tail of \<^verbatim>\<open>POST /devices\<close>, once the organization's name is known:
  \<open>organizationName\<close> is \<open>None\<close> when the organization's document has no
  \<^verbatim>\<open>name\<close>, and the store refuses to write the \<^verbatim>\<open>undefined\<close> field.\<close>

definition create_device ::
  "env \<Rightarrow> claims \<Rightarrow> obj \<Rightarrow> jsval option \<Rightarrow> store \<Rightarrow> response \<times> store" where
  "create_device env user b organizationName st =
     (case organizationName of
        None \<Rightarrow> (failed env ''Failed to create device'' Undefined_field_value, st)
      | Some orgName \<Rightarrow>
          (let deviceData =
                 [(''deviceName'', the (obj_get b ''deviceName'')),
                  (''type'', the (obj_get b ''type'')),
                  (''serialNumber'', the (obj_get b ''serialNumber'')),
                  (''model'', or_default (obj_get b ''model'') (JStr [])),
                  (''manufacturer'', or_default (obj_get b ''manufacturer'') (JStr [])),
                  (''organizationId'', or_default (obj_get b ''organizationId'') JNull),
                  (''organizationName'', orgName),
                  (''status'', or_default (obj_get b ''status'') (JStr ''active'')),
                  (''location'', or_default (obj_get b ''location'') (JStr [])),
                  (''ipAddress'', or_default (obj_get b ''ipAddress'') (JStr [])),
                  (''macAddress'', or_default (obj_get b ''macAddress'') (JStr [])),
                  (''createdAt'', JStr (now env 0)),
                  (''updatedAt'', JStr (now env 1)),
                  (''createdBy'', JStr (uid user))];
               st' = st\<lparr>devices := doc_add (devices st) (auto_id env) deviceData\<rparr>;
               createdDoc = doc_get (devices st') (auto_id env)
           in (\<lparr>status = 201,
                body = JObj [(''success'', JBool True),
                             (''message'', JStr ''Device created successfully''),
                             (''data'', JObj (with_id (auto_id env) (data_of createdDoc)))]\<rparr>,
               st')))"

definition post_devices :: "env \<Rightarrow> claims \<Rightarrow> obj \<Rightarrow> store \<Rightarrow> response \<times> store" where
  "post_devices env user b st =
     (let deviceName = obj_get b ''deviceName''; type_field = obj_get b ''type'';
          serialNumber = obj_get b ''serialNumber''; organizationId = obj_get b ''organizationId''
      in if \<not> truthy_opt deviceName \<or> \<not> truthy_opt type_field \<or> \<not> truthy_opt serialNumber
         then (\<lparr>status = 400,
                body = JObj [(''error'', JStr ''Validation failed''),
                             (''details'',
                              JArr [JStr ''Device name, type, and serial number are required''])]\<rparr>,
               st)
         else if \<not> snapshot_empty (limit 1 (where_eq (devices st) ''serialNumber'' (the serialNumber)))
         then (\<lparr>status = 409,
                body = json_error ''Device with this serial number already exists''\<rparr>, st)
         else if truthy_opt organizationId
         then (case doc_path (the organizationId) of
                 None \<Rightarrow> (failed env ''Failed to create device'' Invalid_document_path, st)
               | Some path \<Rightarrow>
                   (case organization_at st path of
                      None \<Rightarrow> (\<lparr>status = 404, body = json_error ''Organization not found''\<rparr>, st)
                    | Some orgDoc \<Rightarrow> create_device env user b (obj_get orgDoc ''name'') st))
         else create_device env user b (Some (JStr ''Unassigned'')) st)"

text \<open>
  \<^verbatim>\<open>a !== b\<close> between a value of the parsed body and a stored value: primitives
  compare by value, an array or an object of the body is never the stored one.
\<close>

fun strict_neq :: "jsval \<Rightarrow> jsval option \<Rightarrow> bool" where
  "strict_neq (JArr xs) _ = True"
| "strict_neq (JObj ob) _ = True"
| "strict_neq JNaN _ = True"
| "strict_neq a None = True"
| "strict_neq a (Some b) = (a \<noteq> b)"

text \<open>The organization assignment of \<^verbatim>\<open>PUT /devices/:id\<close>: the answer it ends the
  request with, or the update data it has extended.\<close>

definition assign_organization ::
  "env \<Rightarrow> store \<Rightarrow> jsval option \<Rightarrow> obj \<Rightarrow> response + obj" where
  "assign_organization env st organizationId updateData =
     (case organizationId of
        None \<Rightarrow> Inr updateData
      | Some x \<Rightarrow>
          if truthy x
          then (case doc_path x of
                  None \<Rightarrow> Inl (failed env ''Failed to update device'' Invalid_document_path)
                | Some path \<Rightarrow>
                    (case organization_at st path of
                       None \<Rightarrow> Inl \<lparr>status = 404, body = json_error ''Organization not found''\<rparr>
                     | Some orgDoc \<Rightarrow>
                         (case obj_get orgDoc ''name'' of
                            None \<Rightarrow> Inl (failed env ''Failed to update device'' Undefined_field_value)
                          | Some orgName \<Rightarrow>
                              Inr (obj_set (obj_set updateData ''organizationId'' x)
                                     ''organizationName'' orgName))))
          else Inr (obj_set (obj_set updateData ''organizationId'' JNull)
                      ''organizationName'' (JStr ''Unassigned'')))"

definition put_devices_id ::
  "env \<Rightarrow> claims \<Rightarrow> string \<Rightarrow> obj \<Rightarrow> store \<Rightarrow> response \<times> store" where
  "put_devices_id env user i b st =
     (let serialNumber = obj_get b ''serialNumber''
      in case doc_get (devices st) i of
           None \<Rightarrow>
             (\<lparr>status = 404,
               body = JObj [(''success'', JBool False), (''error'', JStr ''Device not found'')]\<rparr>, st)
         | Some doc \<Rightarrow>
             if truthy_opt serialNumber
                \<and> strict_neq (the serialNumber) (obj_get doc ''serialNumber'')
                \<and> \<not> snapshot_empty (limit 1 (where_eq (devices st) ''serialNumber'' (the serialNumber)))
             then (\<lparr>status = 409,
                    body = json_error ''Device with this serial number already exists''\<rparr>, st)
             else
               (let updateData = [(''updatedAt'', JStr (now env 0)),
                                  (''lastModifiedBy'', JStr (uid user))];
                    updateData = set_if_truthy updateData ''deviceName'' (obj_get b ''deviceName'');
                    updateData = set_if_truthy updateData ''type'' (obj_get b ''type'');
                    updateData = set_if_truthy updateData ''serialNumber'' serialNumber;
                    updateData = set_if_defined updateData ''model'' (obj_get b ''model'');
                    updateData = set_if_defined updateData ''manufacturer'' (obj_get b ''manufacturer'');
                    updateData = set_if_truthy updateData ''status'' (obj_get b ''status'');
                    updateData = set_if_defined updateData ''location'' (obj_get b ''location'');
                    updateData = set_if_defined updateData ''ipAddress'' (obj_get b ''ipAddress'');
                    updateData = set_if_defined updateData ''macAddress'' (obj_get b ''macAddress'')
                in case assign_organization env st (obj_get b ''organizationId'') updateData of
                     Inl answer \<Rightarrow> (answer, st)
                   | Inr updateData \<Rightarrow>
                       (let st' = st\<lparr>devices := doc_update (devices st) i updateData\<rparr>;
                            updatedDoc = doc_get (devices st') i
                        in (\<lparr>status = 200,
                             body = JObj [(''success'', JBool True),
                                          (''message'', JStr ''Device updated successfully''),
                                          (''data'', JObj (with_id i (data_of updatedDoc)))]\<rparr>,
                            st'))))"

text \<open>The decimal numeral of a length, as a template literal prints it.\<close>

fun digits :: "nat \<Rightarrow> nat \<Rightarrow> string" where
  "digits 0 n = []"
| "digits (Suc fuel) n =
     (if n < 10 then [''0123456789'' ! n]
      else digits fuel (n div 10) @ [''0123456789'' ! (n mod 10)])"

definition string_of_nat :: "nat \<Rightarrow> string" where
  "string_of_nat n = digits (Suc n) n"

text \<open>
  The loop of \<^verbatim>\<open>POST /devices/bulk-assign\<close>.  \<open>assignment\<close> is the object handed
  to \<^verbatim>\<open>batch.update\<close>, with \<^verbatim>\<open>organizationId || null\<close> already taken and
  the clock read for the \<open>k\<close>-th time.  \<open>staged\<close> holds the writes of the
  batch in the order of \<^verbatim>\<open>batch.update\<close>, each with the id pushed on
  \<^verbatim>\<open>updatedDevices\<close> (of which only the number is read, so the model keeps the id of
  the device written); the \<open>k\<close>-th staged write reads the clock for the \<open>k\<close>-th
  time.  \<open>organizationName\<close> is \<open>None\<close> when the organization's document has no
  \<^verbatim>\<open>name\<close>: the first \<^verbatim>\<open>batch.update\<close> then throws.
\<close>

definition assignment :: "env \<Rightarrow> claims \<Rightarrow> jsval \<Rightarrow> jsval \<Rightarrow> nat \<Rightarrow> obj" where
  "assignment env user organizationId orgName k =
     [(''organizationId'', organizationId),
      (''organizationName'', orgName),
      (''updatedAt'', JStr (now env k)),
      (''lastModifiedBy'', JStr (uid user))]"

fun stage_updates ::
  "env \<Rightarrow> claims \<Rightarrow> store \<Rightarrow> jsval \<Rightarrow> jsval option \<Rightarrow> jsval list \<Rightarrow> (string \<times> obj) list
     \<Rightarrow> sdk_error + (string \<times> obj) list" where
  "stage_updates env user st organizationId organizationName [] staged = Inr staged"
| "stage_updates env user st organizationId organizationName (x # xs) staged =
     (case doc_path x of
        None \<Rightarrow> Inl Invalid_document_path
      | Some path \<Rightarrow>
          (case device_at st path of
             None \<Rightarrow> stage_updates env user st organizationId organizationName xs staged
           | Some (deviceId, deviceDoc) \<Rightarrow>
               (case organizationName of
                  None \<Rightarrow> Inl Undefined_field_value
                | Some orgName \<Rightarrow>
                    stage_updates env user st organizationId organizationName xs
                      (staged @
                         [(deviceId,
                           assignment env user organizationId orgName (length staged))]))))"

text \<open>\<^verbatim>\<open>batch.commit()\<close>: the staged writes, applied together and in order.\<close>

definition commit :: "(string \<times> obj) list \<Rightarrow> string collection \<Rightarrow> string collection" where
  "commit staged c = fold (\<lambda>(i, u) c'. doc_update c' i u) staged c"

text \<open>The rest of the bulk assignment, once the organization's name is known.\<close>

definition assign_all ::
  "env \<Rightarrow> claims \<Rightarrow> jsval list \<Rightarrow> jsval option \<Rightarrow> jsval option \<Rightarrow> store \<Rightarrow> response \<times> store" where
  "assign_all env user deviceIds organizationId organizationName st =
     (case stage_updates env user st (or_default organizationId JNull) organizationName
             deviceIds [] of
        Inl err \<Rightarrow> (failed env ''Failed to assign devices'' err, st)
      | Inr staged \<Rightarrow>
          (let updatedDevices = map fst staged;
               st' = st\<lparr>devices := commit staged (devices st)\<rparr>
           in (\<lparr>status = 200,
                body = JObj [(''success'', JBool True),
                             (''message'',
                              JStr (''Successfully assigned ''
                                    @ string_of_nat (length updatedDevices) @ '' devices'')),
                             (''updatedCount'', JNum (of_nat (length updatedDevices)))]\<rparr>,
               st')))"

definition post_devices_bulk_assign ::
  "env \<Rightarrow> claims \<Rightarrow> obj \<Rightarrow> store \<Rightarrow> response \<times> store" where
  "post_devices_bulk_assign env user b st =
     (let deviceIds = obj_get b ''deviceIds''; organizationId = obj_get b ''organizationId''
      in case deviceIds of
           Some (JArr (x # xs)) \<Rightarrow>
             if truthy_opt organizationId
             then (case doc_path (the organizationId) of
                     None \<Rightarrow> (failed env ''Failed to assign devices'' Invalid_document_path, st)
                   | Some path \<Rightarrow>
                       (case organization_at st path of
                          None \<Rightarrow>
                            (\<lparr>status = 404, body = json_error ''Organization not found''\<rparr>, st)
                        | Some orgDoc \<Rightarrow>
                            assign_all env user (x # xs) organizationId (obj_get orgDoc ''name'') st))
             else assign_all env user (x # xs) organizationId (Some (JStr ''Unassigned'')) st
         | _ \<Rightarrow> (\<lparr>status = 400, body = json_error ''Device IDs array is required''\<rparr>, st))"

section \<open>Gym routes\<close>

definition gyms_of :: "store \<Rightarrow> string \<Rightarrow> string collection" where
  "gyms_of st orgId =
     map (\<lambda>((org, gym), d). (gym, d)) (filter (\<lambda>((org, gym), d). org = orgId) (gyms st))"

definition failed_gym :: "env \<Rightarrow> string \<Rightarrow> sdk_error \<Rightarrow> response" where
  "failed_gym env e err =
     \<lparr>status = 500,
      body = JObj [(''success'', JBool False), (''error'', JStr e),
                   (''message'', JStr (error_message env err))]\<rparr>"

text \<open>The gyms below the document at a path: those of the organization when the path is
  an organization's id, none below any other document.\<close>

definition gyms_under :: "store \<Rightarrow> string list \<Rightarrow> string collection" where
  "gyms_under st path = (case path of [org] \<Rightarrow> gyms_of st org | _ \<Rightarrow> [])"

definition get_gyms :: "env \<Rightarrow> string \<Rightarrow> query \<Rightarrow> store \<Rightarrow> response" where
  "get_gyms env orgId q st =
     (let limit_param = (case obj_get q ''limit'' of None \<Rightarrow> JNum 100 | Some l \<Rightarrow> l)
      in case doc_path (JStr orgId) of
           None \<Rightarrow> failed_gym env ''Failed to fetch gyms'' Invalid_document_path
         | Some path \<Rightarrow>
             (case organization_at st path of
                None \<Rightarrow>
                  \<lparr>status = 200,
                   body = JObj [(''success'', JBool True),
                                (''data'', JArr []),
                                (''count'', JNum 0),
                                (''message'',
                                 JStr ''No gyms found (organization doesn't exist yet)'')]\<rparr>
              | Some orgDoc \<Rightarrow>
                  (case orderBy_createdAt_desc_limit env (gyms_under st path)
                          (parseInt env limit_param) of
                     Inl err \<Rightarrow> failed_gym env ''Failed to fetch gyms'' err
                   | Inr snapshot \<Rightarrow>
                       if snapshot_empty snapshot
                       then \<lparr>status = 200,
                             body = JObj [(''success'', JBool True),
                                          (''data'', JArr []),
                                          (''count'', JNum 0),
                                          (''message'', JStr ''No gyms found'')]\<rparr>
                       else (let gs = map (\<lambda>(i, d). JObj (with_id i d)) snapshot
                             in \<lparr>status = 200,
                                 body = JObj [(''success'', JBool True),
                                              (''data'', JArr gs),
                                              (''count'', JNum (of_nat (length gs)))]\<rparr>))))"

definition requiredFields :: "string list" where
  "requiredFields = [''name'', ''address'', ''phone'', ''email'', ''capacity'', ''manager'']"

definition post_gyms :: "env \<Rightarrow> claims \<Rightarrow> string \<Rightarrow> obj \<Rightarrow> store \<Rightarrow> response \<times> store" where
  "post_gyms env user orgId b st =
     (let missingFields = filter (\<lambda>field. \<not> truthy_opt (obj_get b field)) requiredFields
      in if length missingFields > 0
         then (\<lparr>status = 400,
                body = JObj [(''success'', JBool False),
                             (''error'', JStr ''Validation failed''),
                             (''details'',
                              JArr (map (\<lambda>field. JStr (field @ '' is required'')) missingFields))]\<rparr>,
               st)
         else
           (case doc_get (organizations st) orgId of
              None \<Rightarrow>
                (\<lparr>status = 404,
                  body = JObj [(''success'', JBool False),
                               (''error'',
                                JStr ''Organization not found. Please create the organization first.'')]\<rparr>,
                 st)
            | Some orgDoc \<Rightarrow>
                (let latitude = obj_get b ''latitude''; longitude = obj_get b ''longitude'';
                     gymData =
                       [(''name'', the (obj_get b ''name'')),
                        (''address'', the (obj_get b ''address'')),
                        (''phone'', the (obj_get b ''phone'')),
                        (''email'', the (obj_get b ''email'')),
                        (''capacity'',
                         or_default (Some (parseInt env (the (obj_get b ''capacity'')))) (JNum 0)),
                        (''manager'', the (obj_get b ''manager'')),
                        (''status'', or_default (obj_get b ''status'') (JStr ''ACTIVE'')),
                        (''openingTime'', or_default (obj_get b ''openingTime'') (JStr [])),
                        (''closingTime'', or_default (obj_get b ''closingTime'') (JStr [])),
                        (''amenities'', or_default (obj_get b ''amenities'') (JArr [])),
                        (''latitude'',
                         if truthy_opt latitude then parseFloat env (the latitude) else JNull),
                        (''longitude'',
                         if truthy_opt longitude then parseFloat env (the longitude) else JNull),
                        (''members'', JNum 0),
                        (''monthlyRevenue'', JNum 0),
                        (''organizationId'', JStr orgId),
                        (''createdAt'', JStr (now env 0)),
                        (''updatedAt'', JStr (now env 1)),
                        (''createdBy'', JStr (uid user))];
                     st' = st\<lparr>gyms := doc_add (gyms st) (orgId, auto_id env) gymData\<rparr>;
                     createdDoc = doc_get (gyms st') (orgId, auto_id env)
                 in (\<lparr>status = 201,
                      body = JObj [(''success'', JBool True),
                                   (''message'', JStr ''Gym created successfully''),
                                   (''data'', JObj (with_id (auto_id env) (data_of createdDoc)))]\<rparr>,
                     st'))))"

definition put_gyms ::
  "env \<Rightarrow> claims \<Rightarrow> string \<Rightarrow> string \<Rightarrow> obj \<Rightarrow> store \<Rightarrow> response \<times> store" where
  "put_gyms env user orgId gymId b st =
     (case doc_get (gyms st) (orgId, gymId) of
        None \<Rightarrow>
          (\<lparr>status = 404,
            body = JObj [(''success'', JBool False), (''error'', JStr ''Gym not found'')]\<rparr>, st)
      | Some doc \<Rightarrow>
          (let updateData = [(''updatedAt'', JStr (now env 0)),
                             (''lastModifiedBy'', JStr (uid user))];
               updateData = set_if_truthy updateData ''name'' (obj_get b ''name'');
               updateData = set_if_truthy updateData ''address'' (obj_get b ''address'');
               updateData = set_if_truthy updateData ''phone'' (obj_get b ''phone'');
               updateData = set_if_truthy updateData ''email'' (obj_get b ''email'');
               updateData = set_if_defined updateData ''capacity''
                              (map_option (parseInt env) (obj_get b ''capacity''));
               updateData = set_if_truthy updateData ''manager'' (obj_get b ''manager'');
               updateData = set_if_truthy updateData ''status'' (obj_get b ''status'');
               updateData = set_if_defined updateData ''openingTime'' (obj_get b ''openingTime'');
               updateData = set_if_defined updateData ''closingTime'' (obj_get b ''closingTime'');
               updateData = set_if_defined updateData ''amenities'' (obj_get b ''amenities'');
               updateData = set_if_defined updateData ''latitude''
                              (map_option (\<lambda>v. if truthy v then parseFloat env v else JNull)
                                 (obj_get b ''latitude''));
               updateData = set_if_defined updateData ''longitude''
                              (map_option (\<lambda>v. if truthy v then parseFloat env v else JNull)
                                 (obj_get b ''longitude''));
               updateData = set_if_defined updateData ''members''
                              (map_option (parseInt env) (obj_get b ''members''));
               updateData = set_if_defined updateData ''monthlyRevenue''
                              (map_option (parseFloat env) (obj_get b ''monthlyRevenue''));
               st' = st\<lparr>gyms := doc_update (gyms st) (orgId, gymId) updateData\<rparr>;
               updatedDoc = doc_get (gyms st') (orgId, gymId)
           in (\<lparr>status = 200,
                body = JObj [(''success'', JBool True),
                             (''message'', JStr ''Gym updated successfully''),
                             (''data'', JObj (with_id gymId (data_of updatedDoc)))]\<rparr>,
               st')))"

section \<open>Vocabulary of the specification\<close>

text \<open>
  A validation answer names a field when the field's identifier occurs in one of the
  strings of its \<^verbatim>\<open>details\<close>, letter case and blanks set aside: the sentence
  \<^verbatim>\<open>Device name, type, and serial number are required\<close> names
  \<^verbatim>\<open>deviceName\<close>, \<^verbatim>\<open>type\<close> and \<^verbatim>\<open>serialNumber\<close>.
\<close>

definition lower :: "char \<Rightarrow> char" where
  "lower c =
     (case map_of (zip ''ABCDEFGHIJKLMNOPQRSTUVWXYZ'' ''abcdefghijklmnopqrstuvwxyz'') c of
        Some l \<Rightarrow> l
      | None \<Rightarrow> c)"

definition normalise :: "string \<Rightarrow> string" where
  "normalise s = map lower (filter (\<lambda>c. c \<noteq> CHR '' '') s)"

definition mentions :: "string \<Rightarrow> string \<Rightarrow> bool" where
  "mentions sentence field = occurs (normalise field) (normalise sentence)"

definition names_field :: "jsval list \<Rightarrow> string \<Rightarrow> bool" where
  "names_field details field =
     list_ex (\<lambda>d. case d of JStr sentence \<Rightarrow> mentions sentence field | _ \<Rightarrow> False) details"

text \<open>Two documents that agree on every field outside a given set.\<close>

definition same_outside :: "string set \<Rightarrow> obj \<Rightarrow> obj \<Rightarrow> bool" where
  "same_outside skip d d' = (\<forall>f. f \<in> skip \<or> obj_get d' f = obj_get d f)"

text \<open>
  A collection after a write that touched at most the document \<open>i\<close>, and that one
  only in the fields of \<open>skip\<close>: the same ids in the same order, every other document
  as it was.
\<close>

definition touched_only :: "'k \<Rightarrow> string set \<Rightarrow> 'k collection \<Rightarrow> 'k collection \<Rightarrow> bool" where
  "touched_only i skip c c' =
     list_all2 (\<lambda>(j, d) (j', d'). j' = j \<and> (if j = i then same_outside skip d d' else d' = d))
       c c'"

text \<open>A document that holds every field of \<open>u\<close> with the value \<open>u\<close> gives it.\<close>

definition carries :: "obj \<Rightarrow> obj \<Rightarrow> bool" where
  "carries u d = list_all (\<lambda>(k, v). obj_get d k = Some v) u"

text \<open>
  A device document \<open>d'\<close> after the bulk assignment of the device \<open>d\<close>: it holds the
  organization reference, the organization's name and the caller's uid, its
  \<^verbatim>\<open>updatedAt\<close> is a reading of the clock, and every other field is as in \<open>d\<close>.
\<close>

definition assigned :: "env \<Rightarrow> claims \<Rightarrow> jsval \<Rightarrow> jsval \<Rightarrow> obj \<Rightarrow> obj \<Rightarrow> bool" where
  "assigned env user orgRef orgName d d' =
     (carries [(''organizationId'', orgRef), (''organizationName'', orgName),
               (''lastModifiedBy'', JStr (uid user))] d'
      \<and> (\<exists>k. obj_get d' ''updatedAt'' = Some (JStr (now env k)))
      \<and> same_outside {''organizationId'', ''organizationName'', ''updatedAt'', ''lastModifiedBy''}
           d d')"

text \<open>What the writes of a batch do to the one document \<open>j\<close>.\<close>

definition apply_staged :: "('k \<times> obj) list \<Rightarrow> 'k \<Rightarrow> obj \<Rightarrow> obj" where
  "apply_staged staged j d = fold (\<lambda>(i, u) d'. if i = j then obj_merge d' u else d') staged d"

text \<open>The ids of the device collection that the values of a list address: a value whose
  path is one segment addresses the device of that id, any other value none.\<close>

definition addressed :: "jsval list \<Rightarrow> string list" where
  "addressed ids = concat (map (\<lambda>x. case doc_path x of Some [i] \<Rightarrow> [i] | _ \<Rightarrow> []) ids)"

section \<open>Sample data\<close>

text \<open>A store with two organizations, two devices and one gym, a signed-in user and
  stand-ins for the outside world, used to run the handlers on concrete requests.  The
  documents are stored in the order of their creation, so the sample query returns them
  reversed; the sample \<^verbatim>\<open>parseInt\<close> knows numbers only.\<close>

definition acme :: obj where
  "acme = [(''name'', JStr ''Acme''), (''email'', JStr ''a@acme.com''), (''phone'', JStr ''555''),
           (''address'', JStr ''1 Main St''), (''status'', JStr ''active''),
           (''createdAt'', JStr ''2024-01-01T00:00:00.000Z''),
           (''updatedAt'', JStr ''2024-01-01T00:00:00.000Z''), (''createdBy'', JStr ''u0'')]"

definition globex :: obj where
  "globex = [(''name'', JStr ''Globex''), (''email'', JStr ''g@globex.com''), (''phone'', JStr []),
             (''address'', JStr []), (''status'', JStr ''active''),
             (''createdAt'', JStr ''2024-01-02T00:00:00.000Z''),
             (''updatedAt'', JStr ''2024-01-02T00:00:00.000Z''), (''createdBy'', JStr ''u0'')]"

definition treadmill :: obj where
  "treadmill = [(''deviceName'', JStr ''Treadmill''), (''type'', JStr ''cardio''),
                (''serialNumber'', JStr ''SN1''), (''model'', JStr ''T1''),
                (''organizationId'', JStr ''org1''), (''organizationName'', JStr ''Acme''),
                (''status'', JStr ''active''), (''location'', JStr ''floor 1''),
                (''updatedAt'', JStr ''2024-01-03T00:00:00.000Z'')]"

definition bike :: obj where
  "bike = [(''deviceName'', JStr ''Bike''), (''type'', JStr ''cardio''),
           (''serialNumber'', JStr ''SN2''), (''model'', JStr ''B1''),
           (''organizationId'', JNull), (''organizationName'', JStr ''Unassigned''),
           (''status'', JStr ''active''), (''location'', JStr []),
           (''updatedAt'', JStr ''2024-01-03T00:00:00.000Z'')]"

definition sample_store :: store where
  "sample_store =
     \<lparr>organizations = [(''org1'', acme), (''org2'', globex)],
      devices = [(''dev1'', treadmill), (''dev2'', bike)],
      gyms = [((''org1'', ''gym1''), [(''name'', JStr ''Downtown''), (''status'', JStr ''ACTIVE'')])],
      audit_logs = []\<rparr>"

definition sample_user :: claims where
  "sample_user = \<lparr>uid = ''u1'', other_claims = []\<rparr>"

definition sample_env :: env where
  "sample_env =
     \<lparr>now = (\<lambda>k. ''2024-02-0'' @ string_of_nat (Suc k) @ ''T00:00:00.000Z''),
      auto_id = ''fresh1'',
      error_message = (\<lambda>e. ''sdk error''),
      parseInt = (\<lambda>v. case v of JNum n \<Rightarrow> JNum n | _ \<Rightarrow> JNaN),
      parseFloat = (\<lambda>v. case v of JNum n \<Rightarrow> JNum n | _ \<Rightarrow> JNaN),
      orderBy_createdAt_desc_limit =
        (\<lambda>c n. case n of JNum k \<Rightarrow> Inr (take (nat \<lfloor>k\<rfloor>) (rev c))
                | _ \<Rightarrow> Inl (Query_failed ''limit''))\<rparr>"

text \<open>An identity provider that knows one session cookie and one id token.\<close>

definition sample_auth :: auth_service where
  "sample_auth =
     \<lparr>verifySessionCookie =
        (\<lambda>c checkRevoked. if c = ''cookie1'' \<and> checkRevoked then Inr sample_user
                           else Inl (AuthError ''auth/argument-error'' ''bad cookie'')),
      verifyIdToken =
        (\<lambda>t. if t = Some ''tok1'' then Inr sample_user
             else Inl (AuthError ''auth/id-token-expired'' ''bad token''))\<rparr>"

section \<open>Properties of the authenticator\<close>

lemmas sample_defs = sample_store_def sample_env_def sample_user_def acme_def globex_def
  treadmill_def bike_def

lemma split_at_no_occurrence: "\<not> occurs sep s \<Longrightarrow> split_at sep s = [s]"
  by (induction s) (auto split: list.splits)

lemma split_at_prefix: "sep \<noteq> [] \<Longrightarrow> split_at sep (sep @ s) = [] # split_at sep s"
  by (cases sep) (simp_all add: startsWith_def)

lemma bearer_token_plain:
  "\<not> occurs ''Bearer '' t \<Longrightarrow> at_index (split (''Bearer '' @ t) ''Bearer '') 1 = Some t"
  using split_at_prefix [of "''Bearer ''" t]
  by (simp add: split_def at_index_def split_at_no_occurrence del: split_at.simps)

text \<open>
  The order of the credentials: a non-empty session cookie is verified with the revocation
  check and decides alone, whatever the header holds; without one, a header
  \<^verbatim>\<open>Bearer t\<close> whose \<open>t\<close> holds no further \<^verbatim>\<open>Bearer \<close> has \<open>t\<close> verified as
  an id token; any other request is answered 401.
\<close>

lemma verifyAuth_cookie_first:
  "cookie_session req = Some c \<Longrightarrow> c \<noteq> [] \<Longrightarrow>
   verifyAuth m auth req = decoded (verifySessionCookie auth c True)"
  by (cases c) (simp_all add: verifyAuth_def truthy_str_def)

lemma verifyAuth_bearer:
  "\<not> truthy_str (cookie_session req) \<Longrightarrow> header_authorization req = Some (''Bearer '' @ t) \<Longrightarrow>
   \<not> occurs ''Bearer '' t \<Longrightarrow>
   verifyAuth m auth req = decoded (verifyIdToken auth (Some t))"
  using bearer_token_plain [of t]
  by (simp add: verifyAuth_def truthy_str_def startsWith_def del: split_at.simps)

lemma verifyAuth_no_credential:
  "\<not> truthy_str (cookie_session req) \<Longrightarrow>
   \<not> (truthy_str (header_authorization req)
      \<and> startsWith (the (header_authorization req)) ''Bearer '') \<Longrightarrow>
   verifyAuth m auth req = Responded \<lparr>status = 401, body = json_error m\<rparr>"
  by (auto simp: verifyAuth_def Let_def)

text \<open>
  C1.  The claim has the authenticator verify the remainder of the header after the prefix
  \<^verbatim>\<open>Bearer \<close>.  The code verifies \<^verbatim>\<open>authHeader.split('Bearer ')[1]\<close>, which
  ends where the header holds \<^verbatim>\<open>Bearer \<close> again.  For the header
  \<^verbatim>\<open>Bearer tok1Bearer junk\<close> the remainder \<^verbatim>\<open>tok1Bearer junk\<close> is no valid token
  of the sample identity provider, and the request goes through all the same, on the
  token \<^verbatim>\<open>tok1\<close>.
\<close>

theorem bearer_token_cut_short:
  "verifyIdToken sample_auth (Some ''tok1Bearer junk'')
     = Inl (AuthError ''auth/id-token-expired'' ''bad token'')
   \<and> verifyAuth_organizations sample_auth
        \<lparr>cookie_session = None, header_authorization = Some ''Bearer tok1Bearer junk''\<rparr>
     = Next_with sample_user"
  by (simp add: verifyAuth_organizations_def verifyAuth_def sample_auth_def truthy_str_def
      startsWith_def split_def at_index_def decoded_def)

text \<open>
  C2, as the claim states it, asks for one rejection for a refused credential and for an
  absent one.  The code answers both 401, but with two bodies: of two requests to an
  organization route, one with a stale session cookie and one with no credential, the
  first is told \<^verbatim>\<open>Unauthorized - Invalid token\<close> and the second
  \<^verbatim>\<open>Unauthorized - No valid authentication found\<close>.
\<close>

theorem refused_and_absent_told_apart:
  "verifyAuth_organizations sample_auth
     \<lparr>cookie_session = Some ''stale'', header_authorization = None\<rparr>
     = Responded \<lparr>status = 401, body = JObj [(''error'', JStr ''Unauthorized - Invalid token'')]\<rparr>
   \<and> verifyAuth_organizations sample_auth \<lparr>cookie_session = None, header_authorization = None\<rparr>
     = Responded \<lparr>status = 401,
                   body = JObj [(''error'', JStr ''Unauthorized - No valid authentication found'')]\<rparr>
   \<and> verifyAuth_organizations sample_auth
        \<lparr>cookie_session = Some ''stale'', header_authorization = None\<rparr>
     \<noteq> verifyAuth_organizations sample_auth \<lparr>cookie_session = None, header_authorization = None\<rparr>"
  by (simp add: verifyAuth_organizations_def verifyAuth_def sample_auth_def truthy_str_def
      decoded_def invalid_token_def json_error_def)

text \<open>
  C2, amended.  A request whose credential is refused is answered with the one fixed 401
  response \<^verbatim>\<open>Unauthorized - Invalid token\<close>, whatever the reason \<open>e\<close> of the refusal,
  of which the response carries nothing.  The credential is the non-empty session cookie
  \<open>c\<close>, or without one the remainder \<open>t\<close> of a header \<^verbatim>\<open>Bearer t\<close>; the statement
  is about the remainders that hold no further \<^verbatim>\<open>Bearer \<close> and says nothing of the
  others, which C1 is about.  A request with no credential is answered 401 with the message
  \<open>m\<close> of its route file, another fixed body.  In none of these cases are claims attached
  to the request.
\<close>

theorem rejection_by_class:
  "(cookie_session req = Some c \<and> c \<noteq> [] \<and> verifySessionCookie auth c True = Inl e
    \<longrightarrow> verifyAuth m auth req = Responded invalid_token)
   \<and> (\<not> truthy_str (cookie_session req)
      \<and> header_authorization req = Some (''Bearer '' @ t) \<and> \<not> occurs ''Bearer '' t
      \<and> verifyIdToken auth (Some t) = Inl e
    \<longrightarrow> verifyAuth m auth req = Responded invalid_token)
   \<and> (\<not> truthy_str (cookie_session req)
      \<and> \<not> (truthy_str (header_authorization req)
            \<and> startsWith (the (header_authorization req)) ''Bearer '')
    \<longrightarrow> verifyAuth m auth req = Responded \<lparr>status = 401, body = json_error m\<rparr>)
   \<and> status invalid_token = 401
   \<and> body invalid_token = JObj [(''error'', JStr ''Unauthorized - Invalid token'')]"
proof (intro conjI impI)
  assume "cookie_session req = Some c \<and> c \<noteq> [] \<and> verifySessionCookie auth c True = Inl e"
  then show "verifyAuth m auth req = Responded invalid_token"
    by (simp add: verifyAuth_cookie_first decoded_def)
next
  assume "\<not> truthy_str (cookie_session req)
      \<and> header_authorization req = Some (''Bearer '' @ t) \<and> \<not> occurs ''Bearer '' t
      \<and> verifyIdToken auth (Some t) = Inl e"
  then show "verifyAuth m auth req = Responded invalid_token"
    by (simp add: verifyAuth_bearer decoded_def)
next
  assume "\<not> truthy_str (cookie_session req)
      \<and> \<not> (truthy_str (header_authorization req)
            \<and> startsWith (the (header_authorization req)) ''Bearer '')"
  then show "verifyAuth m auth req = Responded \<lparr>status = 401, body = json_error m\<rparr>"
    by (simp add: verifyAuth_no_credential)
qed (simp_all add: invalid_token_def json_error_def)

theorem rejection_by_class_witness:
  "verifySessionCookie sample_auth ''stale'' True
     = Inl (AuthError ''auth/argument-error'' ''bad cookie'')
   \<and> verifyAuth_devices sample_auth
        \<lparr>cookie_session = Some ''stale'', header_authorization = Some ''Bearer tok1''\<rparr>
     = Responded invalid_token
   \<and> \<not> occurs ''Bearer '' ''old''
   \<and> verifyIdToken sample_auth (Some ''old'')
     = Inl (AuthError ''auth/id-token-expired'' ''bad token'')
   \<and> verifyAuth_devices sample_auth
        \<lparr>cookie_session = None, header_authorization = Some ''Bearer old''\<rparr>
     = Responded invalid_token
   \<and> verifyAuth_devices sample_auth
        \<lparr>cookie_session = None, header_authorization = Some ''Basic abc''\<rparr>
     = Responded \<lparr>status = 401, body = JObj [(''error'', JStr ''Unauthorized'')]\<rparr>
   \<and> verifyAuth_devices sample_auth \<lparr>cookie_session = None, header_authorization = None\<rparr>
     = Responded \<lparr>status = 401, body = JObj [(''error'', JStr ''Unauthorized'')]\<rparr>"
proof -
  let ?stale = "\<lparr>cookie_session = Some ''stale'', header_authorization = Some ''Bearer tok1''\<rparr>"
  let ?old = "\<lparr>cookie_session = None, header_authorization = Some ''Bearer old''\<rparr>"
  let ?basic = "\<lparr>cookie_session = None, header_authorization = Some ''Basic abc''\<rparr>"
  let ?none = "\<lparr>cookie_session = None, header_authorization = None :: string option\<rparr>"
  have cookie: "cookie_session ?stale = Some ''stale''" "''stale'' \<noteq> []"
    "verifySessionCookie sample_auth ''stale'' True
       = Inl (AuthError ''auth/argument-error'' ''bad cookie'')"
    by (simp_all add: sample_auth_def)
  have token: "\<not> truthy_str (cookie_session ?old)"
    "header_authorization ?old = Some (''Bearer '' @ ''old'')" "\<not> occurs ''Bearer '' ''old''"
    "verifyIdToken sample_auth (Some ''old'')
       = Inl (AuthError ''auth/id-token-expired'' ''bad token'')"
    by (simp_all add: truthy_str_def sample_auth_def startsWith_def)
  have basic: "\<not> truthy_str (cookie_session ?basic)"
    "\<not> (truthy_str (header_authorization ?basic)
        \<and> startsWith (the (header_authorization ?basic)) ''Bearer '')"
    by (simp_all add: truthy_str_def startsWith_def)
  have none: "\<not> truthy_str (cookie_session ?none)"
    "\<not> (truthy_str (header_authorization ?none)
        \<and> startsWith (the (header_authorization ?none)) ''Bearer '')"
    by (simp_all add: truthy_str_def)
  note rule = rejection_by_class [where auth = sample_auth and m = "''Unauthorized''"]
  have r1: "verifyAuth ''Unauthorized'' sample_auth ?stale = Responded invalid_token"
    using rule [of ?stale "''stale''"] cookie by blast
  have r2: "verifyAuth ''Unauthorized'' sample_auth ?old = Responded invalid_token"
    using rule [of ?old _ _ "''old''"] token by blast
  have r3: "verifyAuth ''Unauthorized'' sample_auth ?basic
              = Responded \<lparr>status = 401, body = json_error ''Unauthorized''\<rparr>"
    using rule [of ?basic] basic by blast
  have r4: "verifyAuth ''Unauthorized'' sample_auth ?none
              = Responded \<lparr>status = 401, body = json_error ''Unauthorized''\<rparr>"
    using rule [of ?none] none by blast
  from r1 r2 r3 r4 cookie(3) token(3,4) show ?thesis
    by (simp add: verifyAuth_devices_def json_error_def)
qed

section \<open>Properties of the store operations\<close>

lemma obj_get_set: "obj_get (obj_set ob k v) f = (if f = k then Some v else obj_get ob f)"
  by (induction ob) (auto simp: obj_get_def)

lemma obj_get_merge_other: "f \<notin> fst ` set u \<Longrightarrow> obj_get (obj_merge d u) f = obj_get d f"
  unfolding obj_merge_def
  by (induction u arbitrary: d) (auto simp: obj_get_set)

lemma same_outside_merge: "fst ` set u \<subseteq> skip \<Longrightarrow> same_outside skip d (obj_merge d u)"
  unfolding same_outside_def using obj_get_merge_other by blast

lemma touched_only_update: "fst ` set u \<subseteq> skip \<Longrightarrow> touched_only i skip c (doc_update c i u)"
  unfolding touched_only_def doc_update_def
  by (induction c) (auto simp: same_outside_merge)

lemma doc_get_update:
  "doc_get (doc_update c i u) j =
     (if j = i then map_option (\<lambda>d. obj_merge d u) (doc_get c i) else doc_get c j)"
  unfolding doc_get_def doc_update_def
  by (induction c) auto

lemma map_fst_doc_update: "map fst (doc_update c i u) = map fst c"
  unfolding doc_update_def by (induction c) auto

text \<open>A query that has a match is not empty, also when limited to one document.\<close>

lemma where_eq_match:
  "(i, d) \<in> set c \<Longrightarrow> obj_get d field = Some v \<Longrightarrow> \<not> snapshot_empty (limit 1 (where_eq c field v))"
proof -
  assume "(i, d) \<in> set c" and "obj_get d field = Some v"
  then have "(i, d) \<in> set (where_eq c field v)"
    by (simp add: where_eq_def)
  then have "where_eq c field v \<noteq> []"
    by auto
  then show ?thesis
    by (cases "where_eq c field v") (simp_all add: snapshot_empty_def limit_def)
qed

lemma where_eq_no_match:
  "\<not> snapshot_empty (limit 1 (where_eq c field v)) \<Longrightarrow> \<exists>i d. (i, d) \<in> set c \<and> obj_get d field = Some v"
proof -
  assume "\<not> snapshot_empty (limit 1 (where_eq c field v))"
  then obtain x xs where "where_eq c field v = x # xs"
    by (cases "where_eq c field v") (simp_all add: snapshot_empty_def limit_def)
  then have "x \<in> set (where_eq c field v)"
    by simp
  then have "x \<in> set c \<and> (case x of (i, d) \<Rightarrow> obj_get d field = Some v)"
    by (simp add: where_eq_def)
  then show ?thesis
    by (cases x) auto
qed

section \<open>Properties of the resource handlers\<close>

subsection \<open>Update and the uniqueness-constrained field\<close>

text \<open>
  \<^verbatim>\<open>PUT /devices/:id\<close> looks for the new serial number among the devices before it
  writes: a body that changes the serial number to one another device holds is answered
  409, and nothing is written.
\<close>

lemma put_devices_serial_conflict:
  assumes "doc_get (devices st) i = Some doc"
    and "obj_get b ''serialNumber'' = Some v" and "truthy v"
    and "strict_neq v (obj_get doc ''serialNumber'')"
    and "(j, other) \<in> set (devices st)" and "obj_get other ''serialNumber'' = Some v"
  shows "put_devices_id env user i b st =
           (\<lparr>status = 409,
             body = JObj [(''error'', JStr ''Device with this serial number already exists'')]\<rparr>,
            st)"
  using assms where_eq_match [of j other "devices st" "''serialNumber''" v]
  by (simp add: put_devices_id_def json_error_def)

text \<open>
  C3.  \<^verbatim>\<open>PUT /organizations/:id\<close> has no such query.  In the sample store the
  organization \<^verbatim>\<open>org1\<close> holds the email \<^verbatim>\<open>a@acme.com\<close>; the update of
  \<^verbatim>\<open>org2\<close> with the body \<^verbatim>\<open>{email: "a@acme.com"}\<close> is answered 200, and
  afterwards both organizations hold that email.
\<close>

theorem organization_email_not_rechecked:
  "map (\<lambda>(i, d). (i, obj_get d ''email'')) (organizations sample_store)
     = [(''org1'', Some (JStr ''a@acme.com'')), (''org2'', Some (JStr ''g@globex.com''))]
   \<and> status (fst (put_organizations_id sample_env sample_user ''org2''
                     [(''email'', JStr ''a@acme.com'')] sample_store)) = 200
   \<and> map (\<lambda>(i, d). (i, obj_get d ''email''))
        (organizations (snd (put_organizations_id sample_env sample_user ''org2''
                               [(''email'', JStr ''a@acme.com'')] sample_store)))
     = [(''org1'', Some (JStr ''a@acme.com'')), (''org2'', Some (JStr ''a@acme.com''))]"
  by (simp add: put_organizations_id_def sample_defs doc_get_def doc_update_def obj_get_def
      obj_merge_def set_if_truthy_def set_if_defined_def Let_def)

subsection \<open>Create: required fields\<close>

lemma occurs_prefix: "occurs p (p @ s)"
proof -
  have "startsWith (p @ s) p"
    by (simp add: startsWith_def)
  then show ?thesis
    by (cases "p @ s") auto
qed

lemma mentions_own_sentence: "mentions (field @ rest) field"
  by (simp add: mentions_def normalise_def occurs_prefix)

lemma names_field_member:
  "JStr (field @ rest) \<in> set details \<Longrightarrow> names_field details field"
  unfolding names_field_def list_ex_iff
  by (rule bexI [of _ "JStr (field @ rest)"]) (simp_all add: mentions_own_sentence)

lemma names_organization_fields:
  "names_field [JStr ''Name and email are required''] ''name''"
  "names_field [JStr ''Name and email are required''] ''email''"
  by (simp_all add: names_field_def mentions_def normalise_def lower_def startsWith_def)

lemma names_device_fields:
  "names_field [JStr ''Device name, type, and serial number are required''] ''deviceName''"
  "names_field [JStr ''Device name, type, and serial number are required''] ''type''"
  "names_field [JStr ''Device name, type, and serial number are required''] ''serialNumber''"
  by (simp_all add: names_field_def mentions_def normalise_def lower_def startsWith_def)

text \<open>
  C4.  A create request in which a required field \<open>f\<close> is missing (or holds a falsy value)
  is answered 400 \<^verbatim>\<open>Validation failed\<close>, nothing is stored, and the details name \<open>f\<close>.
  For organizations and devices the details are one fixed sentence that names all the
  required fields; for gyms they list \<^verbatim>\<open>f is required\<close> for each missing field \<open>f\<close>,
  in the order of the required fields.  With \<open>f\<close> the field \<^verbatim>\<open>type\<close>, the second part
  is the scenario of a device created without its type.
\<close>

theorem missing_fields_named:
  "(f \<in> set [''name'', ''email''] \<and> \<not> truthy_opt (obj_get b f) \<longrightarrow>
      post_organizations env user b st =
        (\<lparr>status = 400,
          body = JObj [(''error'', JStr ''Validation failed''),
                       (''details'', JArr [JStr ''Name and email are required''])]\<rparr>, st)
      \<and> names_field [JStr ''Name and email are required''] f)
   \<and> (f \<in> set [''deviceName'', ''type'', ''serialNumber''] \<and> \<not> truthy_opt (obj_get b f) \<longrightarrow>
      post_devices env user b st =
        (\<lparr>status = 400,
          body = JObj [(''error'', JStr ''Validation failed''),
                       (''details'',
                        JArr [JStr ''Device name, type, and serial number are required''])]\<rparr>,
         st)
      \<and> names_field [JStr ''Device name, type, and serial number are required''] f)
   \<and> (f \<in> set [''name'', ''address'', ''phone'', ''email'', ''capacity'', ''manager'']
      \<and> \<not> truthy_opt (obj_get b f) \<longrightarrow>
      (\<exists>details.
         post_gyms env user orgId b st =
           (\<lparr>status = 400,
             body = JObj [(''success'', JBool False),
                          (''error'', JStr ''Validation failed''),
                          (''details'', JArr details)]\<rparr>, st)
         \<and> details = map (\<lambda>g. JStr (g @ '' is required''))
                       (filter (\<lambda>g. \<not> truthy_opt (obj_get b g))
                          [''name'', ''address'', ''phone'', ''email'', ''capacity'', ''manager''])
         \<and> JStr (f @ '' is required'') \<in> set details
         \<and> names_field details f))"
proof (intro conjI impI)
  assume f: "f \<in> set [''name'', ''email''] \<and> \<not> truthy_opt (obj_get b f)"
  then show "post_organizations env user b st =
        (\<lparr>status = 400,
          body = JObj [(''error'', JStr ''Validation failed''),
                       (''details'', JArr [JStr ''Name and email are required''])]\<rparr>, st)"
    by (auto simp: post_organizations_def Let_def)
  from f show "names_field [JStr ''Name and email are required''] f"
    using names_organization_fields by auto
next
  assume f: "f \<in> set [''deviceName'', ''type'', ''serialNumber'']
             \<and> \<not> truthy_opt (obj_get b f)"
  then show "post_devices env user b st =
        (\<lparr>status = 400,
          body = JObj [(''error'', JStr ''Validation failed''),
                       (''details'',
                        JArr [JStr ''Device name, type, and serial number are required''])]\<rparr>,
         st)"
    by (auto simp: post_devices_def Let_def)
  from f show "names_field [JStr ''Device name, type, and serial number are required''] f"
    using names_device_fields by auto
next
  let ?missing = "filter (\<lambda>g. \<not> truthy_opt (obj_get b g))
                    [''name'', ''address'', ''phone'', ''email'', ''capacity'', ''manager'']"
  let ?details = "map (\<lambda>g. JStr (g @ '' is required'')) ?missing"
  assume f: "f \<in> set [''name'', ''address'', ''phone'', ''email'', ''capacity'', ''manager'']
             \<and> \<not> truthy_opt (obj_get b f)"
  then have missing: "f \<in> set ?missing"
    by (simp only: set_filter) blast
  then have some: "0 < length ?missing"
    by (rule length_pos_if_in_set)
  have answer: "post_gyms env user orgId b st =
           (\<lparr>status = 400,
             body = JObj [(''success'', JBool False),
                          (''error'', JStr ''Validation failed''),
                          (''details'', JArr ?details)]\<rparr>, st)"
    using some unfolding post_gyms_def requiredFields_def Let_def
    by (simp only: if_True)
  from missing have listed: "JStr (f @ '' is required'') \<in> set ?details"
    by (simp only: set_map) blast
  from listed have "names_field ?details f"
    by (rule names_field_member)
  with answer listed
  show "\<exists>details.
         post_gyms env user orgId b st =
           (\<lparr>status = 400,
             body = JObj [(''success'', JBool False),
                          (''error'', JStr ''Validation failed''),
                          (''details'', JArr details)]\<rparr>, st)
         \<and> details = ?details
         \<and> JStr (f @ '' is required'') \<in> set details
         \<and> names_field details f"
    by blast
qed

theorem missing_fields_named_witness:
  "\<not> truthy_opt (obj_get [(''name'', JStr ''Acme'')] ''email'')
   \<and> post_organizations sample_env sample_user [(''name'', JStr ''Acme'')] sample_store =
       (\<lparr>status = 400,
         body = JObj [(''error'', JStr ''Validation failed''),
                      (''details'', JArr [JStr ''Name and email are required''])]\<rparr>,
        sample_store)
   \<and> names_field [JStr ''Name and email are required''] ''email''
   \<and> \<not> truthy_opt (obj_get [(''deviceName'', JStr ''Rower''), (''serialNumber'', JStr ''SN3'')]
                       ''type'')
   \<and> post_devices sample_env sample_user
        [(''deviceName'', JStr ''Rower''), (''serialNumber'', JStr ''SN3'')] sample_store =
       (\<lparr>status = 400,
         body = JObj [(''error'', JStr ''Validation failed''),
                      (''details'',
                       JArr [JStr ''Device name, type, and serial number are required''])]\<rparr>,
        sample_store)
   \<and> names_field [JStr ''Device name, type, and serial number are required''] ''type''
   \<and> \<not> truthy_opt (obj_get [(''name'', JStr ''Uptown''), (''address'', JStr ''2 Side St''),
                              (''phone'', JStr ''556''), (''capacity'', JNum 0)] ''manager'')
   \<and> (\<exists>details.
        post_gyms sample_env sample_user ''org1''
          [(''name'', JStr ''Uptown''), (''address'', JStr ''2 Side St''),
           (''phone'', JStr ''556''), (''capacity'', JNum 0)] sample_store =
          (\<lparr>status = 400,
            body = JObj [(''success'', JBool False),
                         (''error'', JStr ''Validation failed''),
                         (''details'', JArr details)]\<rparr>, sample_store)
        \<and> details = [JStr ''email is required'', JStr ''capacity is required'',
                     JStr ''manager is required'']
        \<and> JStr ''manager is required'' \<in> set details
        \<and> names_field details ''manager'')"
proof -
  let ?org = "[(''name'', JStr ''Acme'')]"
  let ?dev = "[(''deviceName'', JStr ''Rower''), (''serialNumber'', JStr ''SN3'')]"
  let ?gym = "[(''name'', JStr ''Uptown''), (''address'', JStr ''2 Side St''),
               (''phone'', JStr ''556''), (''capacity'', JNum 0)]"
  have org: "''email'' \<in> set [''name'', ''email''] \<and> \<not> truthy_opt (obj_get ?org ''email'')"
    by (simp add: obj_get_def)
  have dev: "''type'' \<in> set [''deviceName'', ''type'', ''serialNumber'']
             \<and> \<not> truthy_opt (obj_get ?dev ''type'')"
    by (simp add: obj_get_def)
  have gym: "''manager'' \<in> set [''name'', ''address'', ''phone'', ''email'', ''capacity'', ''manager'']
             \<and> \<not> truthy_opt (obj_get ?gym ''manager'')"
    by (simp add: obj_get_def)
  have missing: "map (\<lambda>g. JStr (g @ '' is required''))
                   (filter (\<lambda>g. \<not> truthy_opt (obj_get ?gym g))
                      [''name'', ''address'', ''phone'', ''email'', ''capacity'', ''manager''])
                 = [JStr ''email is required'', JStr ''capacity is required'',
                    JStr ''manager is required'']"
    by (simp add: obj_get_def)
  note rule = missing_fields_named [where env = sample_env and user = sample_user
      and st = sample_store]
  from rule [of "''email''" ?org] org
  have r1: "post_organizations sample_env sample_user ?org sample_store =
       (\<lparr>status = 400,
         body = JObj [(''error'', JStr ''Validation failed''),
                      (''details'', JArr [JStr ''Name and email are required''])]\<rparr>,
        sample_store)
       \<and> names_field [JStr ''Name and email are required''] ''email''"
    by blast
  from rule [of "''type''" ?dev] dev
  have r2: "post_devices sample_env sample_user ?dev sample_store =
       (\<lparr>status = 400,
         body = JObj [(''error'', JStr ''Validation failed''),
                      (''details'',
                       JArr [JStr ''Device name, type, and serial number are required''])]\<rparr>,
        sample_store)
       \<and> names_field [JStr ''Device name, type, and serial number are required''] ''type''"
    by blast
  from rule [of "''manager''" ?gym "''org1''"] gym
  have r3: "\<exists>details.
        post_gyms sample_env sample_user ''org1'' ?gym sample_store =
          (\<lparr>status = 400,
            body = JObj [(''success'', JBool False),
                         (''error'', JStr ''Validation failed''),
                         (''details'', JArr details)]\<rparr>, sample_store)
        \<and> details = [JStr ''email is required'', JStr ''capacity is required'',
                     JStr ''manager is required'']
        \<and> JStr (''manager'' @ '' is required'') \<in> set details
        \<and> names_field details ''manager''"
    unfolding missing by blast
  from r3 have r3': "\<exists>details.
        post_gyms sample_env sample_user ''org1'' ?gym sample_store =
          (\<lparr>status = 400,
            body = JObj [(''success'', JBool False),
                         (''error'', JStr ''Validation failed''),
                         (''details'', JArr details)]\<rparr>, sample_store)
        \<and> details = [JStr ''email is required'', JStr ''capacity is required'',
                     JStr ''manager is required'']
        \<and> JStr ''manager is required'' \<in> set details
        \<and> names_field details ''manager''"
    by simp
  from org dev gym r1 r2 r3' show ?thesis
    by blast
qed

subsection \<open>Update: merge, not replace\<close>

lemma carries_status_patch:
  "carries [(''status'', s), (''updatedAt'', t), (''lastModifiedBy'', m)]
     (obj_merge d [(''updatedAt'', t), (''lastModifiedBy'', m), (''status'', s)])"
  by (simp add: carries_def obj_merge_def obj_get_set)

text \<open>
  C5.  An update whose body is just \<^verbatim>\<open>{status: "inactive"}\<close>, on an organization, a
  device or a gym that exists, is answered 200.  The collection keeps its ids and their
  order; the target document differs from what it was at most in \<^verbatim>\<open>status\<close>,
  \<^verbatim>\<open>updatedAt\<close> and \<^verbatim>\<open>lastModifiedBy\<close>, which now hold
  \<^verbatim>\<open>inactive\<close>, the clock's reading and the caller's uid; every other document and
  every other collection is as before.
\<close>

theorem status_only_update:
  assumes b: "b = [(''status'', JStr ''inactive'')]"
  shows
    "(doc_get (organizations st) i \<noteq> None \<longrightarrow>
        (\<exists>r st' d'. put_organizations_id env user i b st = (r, st') \<and> status r = 200
           \<and> touched_only i {''status'', ''updatedAt'', ''lastModifiedBy''}
                (organizations st) (organizations st')
           \<and> doc_get (organizations st') i = Some d'
           \<and> carries [(''status'', JStr ''inactive''), (''updatedAt'', JStr (now env 0)),
                       (''lastModifiedBy'', JStr (uid user))] d'
           \<and> devices st' = devices st \<and> gyms st' = gyms st \<and> audit_logs st' = audit_logs st))
     \<and> (doc_get (devices st) i \<noteq> None \<longrightarrow>
        (\<exists>r st' d'. put_devices_id env user i b st = (r, st') \<and> status r = 200
           \<and> touched_only i {''status'', ''updatedAt'', ''lastModifiedBy''}
                (devices st) (devices st')
           \<and> doc_get (devices st') i = Some d'
           \<and> carries [(''status'', JStr ''inactive''), (''updatedAt'', JStr (now env 0)),
                       (''lastModifiedBy'', JStr (uid user))] d'
           \<and> organizations st' = organizations st \<and> gyms st' = gyms st
           \<and> audit_logs st' = audit_logs st))
     \<and> (doc_get (gyms st) (orgId, i) \<noteq> None \<longrightarrow>
        (\<exists>r st' d'. put_gyms env user orgId i b st = (r, st') \<and> status r = 200
           \<and> touched_only (orgId, i) {''status'', ''updatedAt'', ''lastModifiedBy''}
                (gyms st) (gyms st')
           \<and> doc_get (gyms st') (orgId, i) = Some d'
           \<and> carries [(''status'', JStr ''inactive''), (''updatedAt'', JStr (now env 0)),
                       (''lastModifiedBy'', JStr (uid user))] d'
           \<and> organizations st' = organizations st \<and> devices st' = devices st
           \<and> audit_logs st' = audit_logs st))"
proof -
  let ?u = "[(''updatedAt'', JStr (now env 0)), (''lastModifiedBy'', JStr (uid user)),
             (''status'', JStr ''inactive'')]"
  have keys: "fst ` set ?u \<subseteq> {''status'', ''updatedAt'', ''lastModifiedBy''}"
    by simp
  have org: "put_organizations_id env user i b st =
               (\<lparr>status = 200,
                 body = JObj [(''success'', JBool True),
                              (''message'', JStr ''Organization updated successfully''),
                              (''data'', JObj (with_id i (obj_merge d ?u)))]\<rparr>,
                st\<lparr>organizations := doc_update (organizations st) i ?u\<rparr>)"
    if "doc_get (organizations st) i = Some d" for d
    using that
    by (simp add: put_organizations_id_def b obj_get_def set_if_truthy_def set_if_defined_def
        doc_get_update data_of_def Let_def)
  have dev: "put_devices_id env user i b st =
               (\<lparr>status = 200,
                 body = JObj [(''success'', JBool True),
                              (''message'', JStr ''Device updated successfully''),
                              (''data'', JObj (with_id i (obj_merge d ?u)))]\<rparr>,
                st\<lparr>devices := doc_update (devices st) i ?u\<rparr>)"
    if "doc_get (devices st) i = Some d" for d
    using that
    by (simp add: put_devices_id_def b obj_get_def set_if_truthy_def set_if_defined_def
        doc_get_update data_of_def assign_organization_def Let_def)
  have gym: "put_gyms env user orgId i b st =
               (\<lparr>status = 200,
                 body = JObj [(''success'', JBool True),
                              (''message'', JStr ''Gym updated successfully''),
                              (''data'', JObj (with_id i (obj_merge d ?u)))]\<rparr>,
                st\<lparr>gyms := doc_update (gyms st) (orgId, i) ?u\<rparr>)"
    if "doc_get (gyms st) (orgId, i) = Some d" for d
    using that
    by (simp add: put_gyms_def b obj_get_def set_if_truthy_def set_if_defined_def
        doc_get_update data_of_def Let_def)
  note frame = touched_only_update [OF keys]
  show ?thesis
    by (auto simp: org dev gym doc_get_update frame carries_status_patch)
qed

theorem status_only_update_witness:
  "doc_get (organizations sample_store) ''org1'' \<noteq> None
   \<and> (\<exists>r st' d'. put_organizations_id sample_env sample_user ''org1''
                      [(''status'', JStr ''inactive'')] sample_store = (r, st')
          \<and> status r = 200
          \<and> touched_only ''org1'' {''status'', ''updatedAt'', ''lastModifiedBy''}
               (organizations sample_store) (organizations st')
          \<and> doc_get (organizations st') ''org1'' = Some d'
          \<and> carries [(''status'', JStr ''inactive''), (''updatedAt'', JStr (now sample_env 0)),
                      (''lastModifiedBy'', JStr (uid sample_user))] d'
          \<and> devices st' = devices sample_store \<and> gyms st' = gyms sample_store
          \<and> audit_logs st' = audit_logs sample_store)
   \<and> doc_get (devices sample_store) ''dev1'' \<noteq> None
   \<and> (\<exists>r st' d'. put_devices_id sample_env sample_user ''dev1''
                      [(''status'', JStr ''inactive'')] sample_store = (r, st')
          \<and> status r = 200
          \<and> touched_only ''dev1'' {''status'', ''updatedAt'', ''lastModifiedBy''}
               (devices sample_store) (devices st')
          \<and> doc_get (devices st') ''dev1'' = Some d'
          \<and> carries [(''status'', JStr ''inactive''), (''updatedAt'', JStr (now sample_env 0)),
                      (''lastModifiedBy'', JStr (uid sample_user))] d'
          \<and> organizations st' = organizations sample_store \<and> gyms st' = gyms sample_store
          \<and> audit_logs st' = audit_logs sample_store)
   \<and> doc_get (gyms sample_store) (''org1'', ''gym1'') \<noteq> None
   \<and> (\<exists>r st' d'. put_gyms sample_env sample_user ''org1'' ''gym1''
                      [(''status'', JStr ''inactive'')] sample_store = (r, st')
          \<and> status r = 200
          \<and> touched_only (''org1'', ''gym1'') {''status'', ''updatedAt'', ''lastModifiedBy''}
               (gyms sample_store) (gyms st')
          \<and> doc_get (gyms st') (''org1'', ''gym1'') = Some d'
          \<and> carries [(''status'', JStr ''inactive''), (''updatedAt'', JStr (now sample_env 0)),
                      (''lastModifiedBy'', JStr (uid sample_user))] d'
          \<and> organizations st' = organizations sample_store
          \<and> devices st' = devices sample_store
          \<and> audit_logs st' = audit_logs sample_store)"
proof -
  have org: "doc_get (organizations sample_store) ''org1'' \<noteq> None"
    by (simp add: sample_store_def doc_get_def)
  have dev: "doc_get (devices sample_store) ''dev1'' \<noteq> None"
    by (simp add: sample_store_def doc_get_def)
  have gym: "doc_get (gyms sample_store) (''org1'', ''gym1'') \<noteq> None"
    by (simp add: sample_store_def doc_get_def)
  note inst = status_only_update [OF refl, of sample_store _ sample_env sample_user]
  from inst [of "''org1''"] org inst [of "''dev1''"] dev inst [of "''gym1''" "''org1''"] gym
  show ?thesis by blast
qed

subsection \<open>Delete: an organization with devices\<close>



subsection \<open>Create: the uniqueness-constrained field\<close>

text \<open>
  C8, as the claim states it, fails on a request that fails the check of the required
  fields, which comes first: in the sample store, where \<^verbatim>\<open>org1\<close> holds the email
  \<^verbatim>\<open>a@acme.com\<close>, the create request \<^verbatim>\<open>{email: "a@acme.com"}\<close> is answered 400,
  not 409.
\<close>

theorem duplicate_email_without_name:
  "(''org1'', acme) \<in> set (organizations sample_store)
   \<and> obj_get acme ''email'' = obj_get [(''email'', JStr ''a@acme.com'')] ''email''
   \<and> post_organizations sample_env sample_user [(''email'', JStr ''a@acme.com'')] sample_store =
       (\<lparr>status = 400,
         body = JObj [(''error'', JStr ''Validation failed''),
                      (''details'', JArr [JStr ''Name and email are required''])]\<rparr>,
        sample_store)
   \<and> status (fst (post_organizations sample_env sample_user [(''email'', JStr ''a@acme.com'')]
                     sample_store)) \<noteq> 409"
  by (simp add: post_organizations_def sample_store_def acme_def obj_get_def)

text \<open>
  C8, amended.  A create request that carries its required fields (name and email for an
  organization; deviceName, type and serialNumber for a device) and whose email, or serial
  number, is the one a stored document of the same kind holds, is answered 409, and the
  store is left as it was, whatever else the body holds.
\<close>

theorem duplicate_key_conflict:
  "(truthy_opt (obj_get b ''name'') \<and> obj_get b ''email'' = Some v \<and> truthy v
      \<and> (i, d) \<in> set (organizations st) \<and> obj_get d ''email'' = Some v \<longrightarrow>
      post_organizations env user b st =
        (\<lparr>status = 409,
          body = JObj [(''error'', JStr ''Organization with this email already exists'')]\<rparr>, st))
   \<and> (truthy_opt (obj_get b ''deviceName'') \<and> truthy_opt (obj_get b ''type'')
      \<and> obj_get b ''serialNumber'' = Some v \<and> truthy v
      \<and> (i, d) \<in> set (devices st) \<and> obj_get d ''serialNumber'' = Some v \<longrightarrow>
      post_devices env user b st =
        (\<lparr>status = 409,
          body = JObj [(''error'', JStr ''Device with this serial number already exists'')]\<rparr>, st))"
  using where_eq_match [of i d "organizations st" "''email''" v]
    where_eq_match [of i d "devices st" "''serialNumber''" v]
  by (auto simp: post_organizations_def post_devices_def json_error_def Let_def)

text \<open>The scenario of the specification: Acme is created in an empty store (201, under the
  generated id), and created again with the same email (409); and a device with the
  serial number of the sample treadmill.\<close>

theorem duplicate_key_conflict_witness:
  "post_organizations sample_env sample_user
     [(''name'', JStr ''Acme''), (''email'', JStr ''a@acme.com'')]
     \<lparr>organizations = [], devices = [], gyms = [], audit_logs = []\<rparr>
     = (\<lparr>status = 201,
         body = JObj [(''success'', JBool True),
                      (''message'', JStr ''Organization created successfully''),
                      (''data'', JObj [(''id'', JStr ''fresh1''), (''name'', JStr ''Acme''),
                                       (''email'', JStr ''a@acme.com''), (''phone'', JStr []),
                                       (''address'', JStr []), (''status'', JStr ''active''),
                                       (''createdAt'', JStr ''2024-02-01T00:00:00.000Z''),
                                       (''updatedAt'', JStr ''2024-02-02T00:00:00.000Z''),
                                       (''createdBy'', JStr ''u1'')])]\<rparr>,
        \<lparr>organizations =
           [(''fresh1'', [(''name'', JStr ''Acme''), (''email'', JStr ''a@acme.com''),
                          (''phone'', JStr []), (''address'', JStr []),
                          (''status'', JStr ''active''),
                          (''createdAt'', JStr ''2024-02-01T00:00:00.000Z''),
                          (''updatedAt'', JStr ''2024-02-02T00:00:00.000Z''),
                          (''createdBy'', JStr ''u1'')])],
         devices = [], gyms = [], audit_logs = []\<rparr>)
   \<and> post_organizations sample_env sample_user
       [(''name'', JStr ''Acme Two''), (''email'', JStr ''a@acme.com''), (''phone'', JStr ''557'')]
       (snd (post_organizations sample_env sample_user
               [(''name'', JStr ''Acme''), (''email'', JStr ''a@acme.com'')]
               \<lparr>organizations = [], devices = [], gyms = [], audit_logs = []\<rparr>))
     = (\<lparr>status = 409,
         body = JObj [(''error'', JStr ''Organization with this email already exists'')]\<rparr>,
        snd (post_organizations sample_env sample_user
               [(''name'', JStr ''Acme''), (''email'', JStr ''a@acme.com'')]
               \<lparr>organizations = [], devices = [], gyms = [], audit_logs = []\<rparr>))
   \<and> post_devices sample_env sample_user
       [(''deviceName'', JStr ''Rower''), (''type'', JStr ''strength''),
        (''serialNumber'', JStr ''SN1'')] sample_store
     = (\<lparr>status = 409,
         body = JObj [(''error'', JStr ''Device with this serial number already exists'')]\<rparr>,
        sample_store)"
proof -
  let ?empty = "\<lparr>organizations = [], devices = [], gyms = [], audit_logs = []\<rparr>"
  let ?acme = "[(''name'', JStr ''Acme''), (''email'', JStr ''a@acme.com''),
                (''phone'', JStr []), (''address'', JStr []), (''status'', JStr ''active''),
                (''createdAt'', JStr ''2024-02-01T00:00:00.000Z''),
                (''updatedAt'', JStr ''2024-02-02T00:00:00.000Z''),
                (''createdBy'', JStr ''u1'')]"
  let ?again = "[(''name'', JStr ''Acme Two''), (''email'', JStr ''a@acme.com''),
                 (''phone'', JStr ''557'')]"
  let ?rower = "[(''deviceName'', JStr ''Rower''), (''type'', JStr ''strength''),
                 (''serialNumber'', JStr ''SN1'')]"
  have first: "post_organizations sample_env sample_user
                 [(''name'', JStr ''Acme''), (''email'', JStr ''a@acme.com'')] ?empty
     = (\<lparr>status = 201,
         body = JObj [(''success'', JBool True),
                      (''message'', JStr ''Organization created successfully''),
                      (''data'', JObj ((''id'', JStr ''fresh1'') # ?acme))]\<rparr>,
        \<lparr>organizations = [(''fresh1'', ?acme)], devices = [], gyms = [], audit_logs = []\<rparr>)"
    by (simp add: post_organizations_def sample_env_def sample_user_def obj_get_def
        or_default_def where_eq_def limit_def snapshot_empty_def doc_add_def doc_get_def with_id_def
        obj_merge_def string_of_nat_def Let_def)
  have org: "truthy_opt (obj_get ?again ''name'')"
    "obj_get ?again ''email'' = Some (JStr ''a@acme.com'')" "truthy (JStr ''a@acme.com'')"
    "(''fresh1'', ?acme) \<in> set (organizations
        \<lparr>organizations = [(''fresh1'', ?acme)], devices = [], gyms = [], audit_logs = []\<rparr>)"
    "obj_get ?acme ''email'' = Some (JStr ''a@acme.com'')"
    by (simp_all add: obj_get_def)
  have dev: "truthy_opt (obj_get ?rower ''deviceName'')" "truthy_opt (obj_get ?rower ''type'')"
    "obj_get ?rower ''serialNumber'' = Some (JStr ''SN1'')" "truthy (JStr ''SN1'')"
    "(''dev1'', treadmill) \<in> set (devices sample_store)"
    "obj_get treadmill ''serialNumber'' = Some (JStr ''SN1'')"
    by (simp_all add: obj_get_def sample_store_def treadmill_def)
  note rule = duplicate_key_conflict [where env = sample_env and user = sample_user]
  have second: "post_organizations sample_env sample_user ?again
                  \<lparr>organizations = [(''fresh1'', ?acme)], devices = [], gyms = [],
                     audit_logs = []\<rparr>
     = (\<lparr>status = 409,
         body = JObj [(''error'', JStr ''Organization with this email already exists'')]\<rparr>,
        \<lparr>organizations = [(''fresh1'', ?acme)], devices = [], gyms = [], audit_logs = []\<rparr>)"
    using rule [of ?again "JStr ''a@acme.com''" "''fresh1''" ?acme] org by blast
  have third: "post_devices sample_env sample_user ?rower sample_store
     = (\<lparr>status = 409,
         body = JObj [(''error'', JStr ''Device with this serial number already exists'')]\<rparr>,
        sample_store)"
    using rule [of ?rower "JStr ''SN1''" "''dev1''" treadmill sample_store] dev by blast
  from first second third show ?thesis
    by simp
qed

subsection \<open>List: a parent that does not exist, and the list narrowed to one id\<close>

text \<open>An id with no \<^verbatim>\<open>/\<close> in it is a path of one segment, itself.\<close>

lemma no_slash_occurs: "CHR ''/'' \<notin> set s \<Longrightarrow> \<not> occurs (CHR ''/'' # p) s"
  by (induction s) (auto simp: startsWith_def)

lemma doc_path_plain: "s \<noteq> [] \<Longrightarrow> CHR ''/'' \<notin> set s \<Longrightarrow> doc_path (JStr s) = Some [s]"
  using no_slash_occurs [of s "[]"] no_slash_occurs [of s "''/''"]
  by (simp add: doc_path_def split_def split_at_no_occurrence del: split_at.simps)

text \<open>
  C9, as the claim states it, fails on an organization id that is in no way in the store
  because it is no document path: the request
  \<^verbatim>\<open>GET /organizations/org9%2Fx/gyms\<close> has the id \<^verbatim>\<open>org9/x\<close>, the store's
  client refuses it, and the handler answers 500.
\<close>

theorem gyms_of_refused_organization_id:
  "doc_get (organizations sample_store) ''org9/x'' = None
   \<and> get_gyms sample_env ''org9/x'' [] sample_store
     = \<lparr>status = 500,
        body = JObj [(''success'', JBool False), (''error'', JStr ''Failed to fetch gyms''),
                     (''message'', JStr ''sdk error'')]\<rparr>"
  by (simp add: get_gyms_def failed_gym_def doc_path_def split_def startsWith_def
      sample_store_def sample_env_def doc_get_def)

text \<open>
  C9, amended.  The list of the gyms under an organization id that the store's client
  accepts as a document path, and at which the store holds no document, is answered 200
  with \<^verbatim>\<open>success: true\<close>, an empty \<^verbatim>\<open>data\<close>, \<^verbatim>\<open>count: 0\<close> and a message
  that says the organization does not exist; so is, in particular, every id without
  \<^verbatim>\<open>/\<close> that is the id of no stored organization.  A document that exists and below
  which the gym query returns nothing is answered 200 with another message.  An id the
  client refuses is answered 500.
\<close>

theorem gyms_of_missing_organization:
  "(doc_path (JStr orgId) = Some path \<and> organization_at st path = None \<longrightarrow>
      get_gyms env orgId q st =
        \<lparr>status = 200,
         body = JObj [(''success'', JBool True), (''data'', JArr []), (''count'', JNum 0),
                      (''message'', JStr ''No gyms found (organization doesn't exist yet)'')]\<rparr>)
   \<and> (orgId \<noteq> [] \<and> CHR ''/'' \<notin> set orgId \<and> doc_get (organizations st) orgId = None \<longrightarrow>
      get_gyms env orgId q st =
        \<lparr>status = 200,
         body = JObj [(''success'', JBool True), (''data'', JArr []), (''count'', JNum 0),
                      (''message'', JStr ''No gyms found (organization doesn't exist yet)'')]\<rparr>)
   \<and> (doc_path (JStr orgId) = Some path \<and> organization_at st path \<noteq> None
      \<and> orderBy_createdAt_desc_limit env (gyms_under st path)
           (parseInt env (case obj_get q ''limit'' of None \<Rightarrow> JNum 100 | Some l \<Rightarrow> l))
          = Inr [] \<longrightarrow>
      get_gyms env orgId q st =
        \<lparr>status = 200,
         body = JObj [(''success'', JBool True), (''data'', JArr []), (''count'', JNum 0),
                      (''message'', JStr ''No gyms found'')]\<rparr>)
   \<and> (doc_path (JStr orgId) = None \<longrightarrow>
      get_gyms env orgId q st =
        \<lparr>status = 500,
         body = JObj [(''success'', JBool False), (''error'', JStr ''Failed to fetch gyms''),
                      (''message'', JStr (error_message env Invalid_document_path))]\<rparr>)"
proof (intro conjI impI)
  assume "orgId \<noteq> [] \<and> CHR ''/'' \<notin> set orgId \<and> doc_get (organizations st) orgId = None"
  then have "doc_path (JStr orgId) = Some [orgId]" and "organization_at st [orgId] = None"
    by (simp_all add: doc_path_plain organization_at_def)
  then show "get_gyms env orgId q st =
        \<lparr>status = 200,
         body = JObj [(''success'', JBool True), (''data'', JArr []), (''count'', JNum 0),
                      (''message'', JStr ''No gyms found (organization doesn't exist yet)'')]\<rparr>"
    by (simp add: get_gyms_def)
qed (auto simp: get_gyms_def failed_gym_def snapshot_empty_def)

theorem gyms_of_missing_organization_witness:
  "doc_path (JStr ''org9/gyms/gym1'') = Some [''org9'', ''gyms'', ''gym1'']
   \<and> organization_at sample_store [''org9'', ''gyms'', ''gym1''] = None
   \<and> get_gyms sample_env ''org9/gyms/gym1'' [] sample_store =
        \<lparr>status = 200,
         body = JObj [(''success'', JBool True), (''data'', JArr []), (''count'', JNum 0),
                      (''message'', JStr ''No gyms found (organization doesn't exist yet)'')]\<rparr>
   \<and> doc_get (organizations sample_store) ''org9'' = None
   \<and> get_gyms sample_env ''org9'' [] sample_store =
        \<lparr>status = 200,
         body = JObj [(''success'', JBool True), (''data'', JArr []), (''count'', JNum 0),
                      (''message'', JStr ''No gyms found (organization doesn't exist yet)'')]\<rparr>
   \<and> doc_path (JStr ''org2/'') = Some [''org2'']
   \<and> organization_at sample_store [''org2''] \<noteq> None
   \<and> get_gyms sample_env ''org2/'' [] sample_store =
        \<lparr>status = 200,
         body = JObj [(''success'', JBool True), (''data'', JArr []), (''count'', JNum 0),
                      (''message'', JStr ''No gyms found'')]\<rparr>
   \<and> doc_path (JStr ''org9//x'') = None
   \<and> get_gyms sample_env ''org9//x'' [] sample_store =
        \<lparr>status = 500,
         body = JObj [(''success'', JBool False), (''error'', JStr ''Failed to fetch gyms''),
                      (''message'', JStr ''sdk error'')]\<rparr>"
proof -
  have nested: "doc_path (JStr ''org9/gyms/gym1'') = Some [''org9'', ''gyms'', ''gym1'']"
    "organization_at sample_store [''org9'', ''gyms'', ''gym1''] = None"
    by (simp_all add: doc_path_def split_def startsWith_def organization_at_def
        sample_store_def doc_get_def)
  have missing: "''org9'' \<noteq> [] \<and> CHR ''/'' \<notin> set ''org9''
                 \<and> doc_get (organizations sample_store) ''org9'' = None"
    by (simp add: sample_store_def doc_get_def)
  have there: "doc_path (JStr ''org2/'') = Some [''org2'']"
    "organization_at sample_store [''org2''] \<noteq> None"
    by (simp_all add: doc_path_def split_def startsWith_def organization_at_def
        sample_store_def doc_get_def)
  have none: "orderBy_createdAt_desc_limit sample_env (gyms_under sample_store [''org2''])
                (parseInt sample_env
                   (case obj_get [] ''limit'' of None \<Rightarrow> JNum 100 | Some l \<Rightarrow> l)) = Inr []"
    by (simp add: sample_store_def sample_env_def gyms_under_def gyms_of_def obj_get_def)
  have refused: "doc_path (JStr ''org9//x'') = None"
    by (simp add: doc_path_def startsWith_def)
  have message: "error_message sample_env Invalid_document_path = ''sdk error''"
    by (simp add: sample_env_def)
  note rule = gyms_of_missing_organization [where env = sample_env and st = sample_store
      and q = "[]"]
  have r1: "get_gyms sample_env ''org9/gyms/gym1'' [] sample_store =
        \<lparr>status = 200,
         body = JObj [(''success'', JBool True), (''data'', JArr []), (''count'', JNum 0),
                      (''message'', JStr ''No gyms found (organization doesn't exist yet)'')]\<rparr>"
    using rule [of "''org9/gyms/gym1''" "[''org9'', ''gyms'', ''gym1'']"] nested by blast
  have r2: "get_gyms sample_env ''org9'' [] sample_store =
        \<lparr>status = 200,
         body = JObj [(''success'', JBool True), (''data'', JArr []), (''count'', JNum 0),
                      (''message'', JStr ''No gyms found (organization doesn't exist yet)'')]\<rparr>"
    using rule [of "''org9''"] missing by blast
  have r3: "get_gyms sample_env ''org2/'' [] sample_store =
        \<lparr>status = 200,
         body = JObj [(''success'', JBool True), (''data'', JArr []), (''count'', JNum 0),
                      (''message'', JStr ''No gyms found'')]\<rparr>"
    using rule [of "''org2/''" "[''org2'']"] there none by blast
  have r4: "get_gyms sample_env ''org9//x'' [] sample_store =
        \<lparr>status = 500,
         body = JObj [(''success'', JBool False), (''error'', JStr ''Failed to fetch gyms''),
                      (''message'', JStr ''sdk error'')]\<rparr>"
    using rule [of "''org9//x''"] refused unfolding message by blast
  from nested missing there refused r1 r2 r3 r4 show ?thesis
    by blast
qed

text \<open>
  C10, as the claim states it, fails on a request that supplies an empty
  \<^verbatim>\<open>organizationId\<close>: the handler takes the parameter for absent and answers with the
  whole list and its count.  It fails as well on \<^verbatim>\<open>organizationId=org1/x\<close>, which
  the store's client refuses: the answer is 500, neither the document nor a 404.
\<close>

theorem empty_organization_id_lists_all:
  "obj_get [(''organizationId'', JStr [])] ''organizationId'' = Some (JStr [])
   \<and> get_organizations sample_env [(''organizationId'', JStr [])] sample_store
     = \<lparr>status = 200,
        body = JObj [(''success'', JBool True),
                     (''data'', JArr [JObj ((''id'', JStr ''org2'') # globex),
                                      JObj ((''id'', JStr ''org1'') # acme)]),
                     (''count'', JNum 2)]\<rparr>
   \<and> get_organizations sample_env [(''organizationId'', JStr ''org1/x'')] sample_store
     = \<lparr>status = 500,
        body = JObj [(''error'', JStr ''Failed to fetch organizations''),
                     (''message'', JStr ''sdk error'')]\<rparr>"
  by (simp add: get_organizations_def failed_def obj_get_def doc_path_def split_def
      startsWith_def sample_store_def sample_env_def with_id_def obj_merge_def globex_def
      acme_def)

text \<open>
  C10, amended.  A list request with a non-empty (truthy) \<^verbatim>\<open>organizationId\<close> is not a
  list.  When the store's client refuses the value as a document path the answer is 500.
  Otherwise the answer is 404 when the store holds no document at that path, and else 200
  with that one document as the object \<^verbatim>\<open>data\<close>, not an array, under the id of the
  path, and no \<^verbatim>\<open>count\<close>; for an id without \<^verbatim>\<open>/\<close> the document is the
  organization of that id.  The answer depends neither on the \<^verbatim>\<open>limit\<close> parameter nor
  on the ordered query of the store, neither of which it reads.
\<close>

theorem organizations_narrowed_to_id:
  assumes "obj_get q ''organizationId'' = Some v" and "truthy v"
  shows "get_organizations env q st =
           (case doc_path v of
              None \<Rightarrow>
                \<lparr>status = 500,
                 body = JObj [(''error'', JStr ''Failed to fetch organizations''),
                              (''message'', JStr (error_message env Invalid_document_path))]\<rparr>
            | Some path \<Rightarrow>
                (case organization_at st path of
                   None \<Rightarrow>
                     \<lparr>status = 404, body = JObj [(''error'', JStr ''Organization not found'')]\<rparr>
                 | Some d \<Rightarrow>
                     \<lparr>status = 200,
                      body = JObj [(''success'', JBool True),
                                   (''data'', JObj (with_id (doc_id path) d))]\<rparr>))
         \<and> (\<forall>oid. v = JStr oid \<and> CHR ''/'' \<notin> set oid \<longrightarrow>
               get_organizations env q st =
                 (case doc_get (organizations st) oid of
                    None \<Rightarrow>
                      \<lparr>status = 404, body = JObj [(''error'', JStr ''Organization not found'')]\<rparr>
                  | Some d \<Rightarrow>
                      \<lparr>status = 200,
                       body = JObj [(''success'', JBool True),
                                    (''data'', JObj (with_id oid d))]\<rparr>))"
proof -
  have general: "get_organizations env q st =
           (case doc_path v of
              None \<Rightarrow>
                \<lparr>status = 500,
                 body = JObj [(''error'', JStr ''Failed to fetch organizations''),
                              (''message'', JStr (error_message env Invalid_document_path))]\<rparr>
            | Some path \<Rightarrow>
                (case organization_at st path of
                   None \<Rightarrow>
                     \<lparr>status = 404, body = JObj [(''error'', JStr ''Organization not found'')]\<rparr>
                 | Some d \<Rightarrow>
                     \<lparr>status = 200,
                      body = JObj [(''success'', JBool True),
                                   (''data'', JObj (with_id (doc_id path) d))]\<rparr>))"
    using assms
    by (simp add: get_organizations_def failed_def json_error_def Let_def
        split: option.splits)
  have plain: "get_organizations env q st =
                 (case doc_get (organizations st) oid of
                    None \<Rightarrow>
                      \<lparr>status = 404, body = JObj [(''error'', JStr ''Organization not found'')]\<rparr>
                  | Some d \<Rightarrow>
                      \<lparr>status = 200,
                       body = JObj [(''success'', JBool True),
                                    (''data'', JObj (with_id oid d))]\<rparr>)"
    if "v = JStr oid \<and> CHR ''/'' \<notin> set oid" for oid
  proof -
    from that assms(2) have "doc_path v = Some [oid]"
      by (simp add: doc_path_plain)
    then show ?thesis
      unfolding general by (simp add: organization_at_def doc_id_def split: option.splits)
  qed
  from general plain show ?thesis
    by blast
qed

theorem organizations_narrowed_to_id_witness:
  "obj_get [(''organizationId'', JStr ''org2''), (''limit'', JStr ''1'')] ''organizationId''
     = Some (JStr ''org2'')
   \<and> truthy (JStr ''org2'')
   \<and> get_organizations sample_env [(''organizationId'', JStr ''org2''), (''limit'', JStr ''1'')]
       sample_store
     = \<lparr>status = 200,
        body = JObj [(''success'', JBool True),
                     (''data'', JObj ((''id'', JStr ''org2'') # globex))]\<rparr>
   \<and> get_organizations sample_env [(''organizationId'', JStr ''org9'')] sample_store
     = \<lparr>status = 404, body = JObj [(''error'', JStr ''Organization not found'')]\<rparr>
   \<and> get_organizations sample_env [(''organizationId'', JArr [JStr ''org1'', JStr ''org2''])]
       sample_store
     = \<lparr>status = 500,
        body = JObj [(''error'', JStr ''Failed to fetch organizations''),
                     (''message'', JStr ''sdk error'')]\<rparr>
   \<and> get_organizations sample_env [] sample_store
     = \<lparr>status = 200,
        body = JObj [(''success'', JBool True),
                     (''data'', JArr [JObj ((''id'', JStr ''org2'') # globex),
                                      JObj ((''id'', JStr ''org1'') # acme)]),
                     (''count'', JNum 2)]\<rparr>"
proof -
  have one: "obj_get [(''organizationId'', JStr ''org2''), (''limit'', JStr ''1'')]
               ''organizationId'' = Some (JStr ''org2'')" "truthy (JStr ''org2'')"
    by (simp_all add: obj_get_def)
  have other: "obj_get [(''organizationId'', JStr ''org9'')] ''organizationId''
                 = Some (JStr ''org9'')" "truthy (JStr ''org9'')"
    by (simp_all add: obj_get_def)
  have array: "obj_get [(''organizationId'', JArr [JStr ''org1'', JStr ''org2''])]
                 ''organizationId'' = Some (JArr [JStr ''org1'', JStr ''org2''])"
    "truthy (JArr [JStr ''org1'', JStr ''org2''])"
    by (simp_all add: obj_get_def)
  have paths: "doc_path (JStr ''org2'') = Some [''org2'']"
    "doc_path (JStr ''org9'') = Some [''org9'']"
    "doc_path (JArr [JStr ''org1'', JStr ''org2'']) = None"
    by (simp_all add: doc_path_plain) (simp add: doc_path_def)
  have found: "organization_at sample_store [''org2''] = Some globex"
    "organization_at sample_store [''org9''] = None"
    by (simp_all add: organization_at_def sample_store_def doc_get_def)
  have spread: "with_id (doc_id [''org2'']) globex = (''id'', JStr ''org2'') # globex"
    "with_id ''org2'' globex = (''id'', JStr ''org2'') # globex"
    "with_id ''org1'' acme = (''id'', JStr ''org1'') # acme"
    by (simp_all add: with_id_def doc_id_def obj_merge_def globex_def acme_def)
  have message: "error_message sample_env Invalid_document_path = ''sdk error''"
    by (simp add: sample_env_def)
  have listed: "get_organizations sample_env [] sample_store
     = \<lparr>status = 200,
        body = JObj [(''success'', JBool True),
                     (''data'', JArr [JObj ((''id'', JStr ''org2'') # globex),
                                      JObj ((''id'', JStr ''org1'') # acme)]),
                     (''count'', JNum 2)]\<rparr>"
    by (simp add: get_organizations_def obj_get_def sample_store_def sample_env_def spread)
  from organizations_narrowed_to_id [OF one, of sample_env sample_store]
    organizations_narrowed_to_id [OF other, of sample_env sample_store]
    organizations_narrowed_to_id [OF array, of sample_env sample_store]
    one paths found spread message listed
  show ?thesis by simp
qed

subsection \<open>Bulk assignment\<close>

lemma device_at_Some:
  "device_at st path = Some (i, d) \<longleftrightarrow> path = [i] \<and> doc_get (devices st) i = Some d"
  by (auto simp: device_at_def split: list.splits)

lemma device_at_None:
  "device_at st path = None \<Longrightarrow>
   filter (\<lambda>i. doc_get (devices st) i \<noteq> None) (case Some path of Some [i] \<Rightarrow> [i] | _ \<Rightarrow> []) = []"
  by (auto simp: device_at_def split: list.splits)

lemma stage_updates_existing:
  "\<forall>x \<in> set ids. doc_path x \<noteq> None \<Longrightarrow>
   \<exists>news. stage_updates env user st orgRef (Some orgName) ids staged = Inr (staged @ news)
     \<and> map fst news = filter (\<lambda>i. doc_get (devices st) i \<noteq> None) (addressed ids)
     \<and> (\<forall>(i, u) \<in> set news. \<exists>k. u = assignment env user orgRef orgName k)"
proof (induction ids arbitrary: staged)
  case Nil
  then show ?case by (simp add: addressed_def)
next
  case (Cons x xs)
  then obtain path where x: "doc_path x = Some path" and xs: "\<forall>x \<in> set xs. doc_path x \<noteq> None"
    by auto
  have step: "addressed (x # xs) = (case Some path of Some [i] \<Rightarrow> [i] | _ \<Rightarrow> []) @ addressed xs"
    by (simp add: addressed_def x)
  show ?case
  proof (cases "device_at st path")
    case None
    from Cons.IH [OF xs, of staged]
    obtain news where news:
      "stage_updates env user st orgRef (Some orgName) xs staged = Inr (staged @ news)"
      "map fst news = filter (\<lambda>i. doc_get (devices st) i \<noteq> None) (addressed xs)"
      "\<forall>(i, u) \<in> set news. \<exists>k. u = assignment env user orgRef orgName k"
      by blast
    have "stage_updates env user st orgRef (Some orgName) (x # xs) staged = Inr (staged @ news)"
      using x None news(1) by simp
    moreover have "map fst news
                     = filter (\<lambda>i. doc_get (devices st) i \<noteq> None) (addressed (x # xs))"
      unfolding step filter_append device_at_None [OF None] using news(2) by simp
    ultimately show ?thesis
      using news(3) by blast
  next
    case (Some found)
    obtain i deviceDoc where found: "found = (i, deviceDoc)"
      by (cases found)
    with Some have path: "path = [i]" and stored: "doc_get (devices st) i = Some deviceDoc"
      by (simp_all add: device_at_Some)
    let ?w = "(i, assignment env user orgRef orgName (length staged))"
    from Cons.IH [OF xs, of "staged @ [?w]"]
    obtain news where news:
      "stage_updates env user st orgRef (Some orgName) xs (staged @ [?w])
         = Inr ((staged @ [?w]) @ news)"
      "map fst news = filter (\<lambda>i. doc_get (devices st) i \<noteq> None) (addressed xs)"
      "\<forall>(i, u) \<in> set news. \<exists>k. u = assignment env user orgRef orgName k"
      by blast
    have "stage_updates env user st orgRef (Some orgName) (x # xs) staged
            = Inr (staged @ (?w # news))"
      using x Some found news(1) by simp
    moreover have "map fst (?w # news)
                     = filter (\<lambda>i. doc_get (devices st) i \<noteq> None) (addressed (x # xs))"
      unfolding step path using stored news(2) by simp
    moreover have "\<forall>(i, u) \<in> set (?w # news). \<exists>k. u = assignment env user orgRef orgName k"
      using news(3) by auto
    ultimately show ?thesis
      by blast
  qed
qed

lemma commit_pointwise:
  "commit staged c = map (\<lambda>(j, d). (j, apply_staged staged j d)) c"
proof (induction staged arbitrary: c)
  case Nil
  then show ?case by (simp add: commit_def apply_staged_def)
next
  case (Cons w staged)
  obtain i u where w: "w = (i, u)" by (cases w)
  have "commit (w # staged) c = commit staged (doc_update c i u)"
    by (simp add: commit_def w)
  also have "\<dots> = map (\<lambda>(j, d). (j, apply_staged staged j d)) (doc_update c i u)"
    by (rule Cons.IH)
  also have "\<dots> = map (\<lambda>(j, d). (j, apply_staged (w # staged) j d)) c"
    by (auto simp: doc_update_def apply_staged_def w)
  finally show ?case .
qed

lemma assigned_merge:
  "assigned env user orgRef orgName d (obj_merge d (assignment env user orgRef orgName k))"
  unfolding assigned_def
  by (auto simp: carries_def assignment_def obj_merge_def obj_get_set same_outside_def)

lemma assigned_after:
  "same_outside {''organizationId'', ''organizationName'', ''updatedAt'', ''lastModifiedBy''} d d1
   \<Longrightarrow> assigned env user orgRef orgName d1 d' \<Longrightarrow> assigned env user orgRef orgName d d'"
  unfolding assigned_def same_outside_def by metis

lemma apply_staged_assigned:
  assumes "\<forall>(i, u) \<in> set staged. \<exists>k. u = assignment env user orgRef orgName k"
  shows "if j \<in> fst ` set staged
         then assigned env user orgRef orgName d (apply_staged staged j d)
         else apply_staged staged j d = d"
  using assms
proof (induction staged arbitrary: d)
  case Nil
  then show ?case by (simp add: apply_staged_def)
next
  case (Cons w staged)
  obtain i u where w: "w = (i, u)" by (cases w)
  from Cons.prems w obtain k where u: "u = assignment env user orgRef orgName k"
    by auto
  from Cons.prems have rest: "\<forall>(i, u) \<in> set staged. \<exists>k. u = assignment env user orgRef orgName k"
    by simp
  note IH = Cons.IH [OF rest]
  show ?case
  proof (cases "i = j")
    case True
    let ?d1 = "obj_merge d u"
    have step: "apply_staged (w # staged) j d = apply_staged staged j ?d1"
      by (simp add: apply_staged_def w True)
    have first: "assigned env user orgRef orgName d ?d1"
      unfolding u by (rule assigned_merge)
    then have same: "same_outside {''organizationId'', ''organizationName'', ''updatedAt'',
                                    ''lastModifiedBy''} d ?d1"
      by (simp add: assigned_def)
    have "assigned env user orgRef orgName d (apply_staged staged j ?d1)"
    proof (cases "j \<in> fst ` set staged")
      case True
      with IH [of ?d1] have "assigned env user orgRef orgName ?d1 (apply_staged staged j ?d1)"
        by simp
      with same show ?thesis by (rule assigned_after)
    next
      case False
      with IH [of ?d1] have "apply_staged staged j ?d1 = ?d1" by simp
      with first show ?thesis by simp
    qed
    with step True w show ?thesis by simp
  next
    case False
    have step: "apply_staged (w # staged) j d = apply_staged staged j d"
      using False by (simp add: apply_staged_def w)
    from False w have "(j \<in> fst ` set (w # staged)) = (j \<in> fst ` set staged)"
      by auto
    with step IH [of d] show ?thesis by simp
  qed
qed

lemma stored_exists: "(j, d) \<in> set c \<Longrightarrow> doc_get c j \<noteq> None"
  unfolding doc_get_def by (metis fst_conv image_eqI map_of_eq_None_iff)

lemma assign_all_existing:
  assumes ids: "\<forall>x \<in> set ids. doc_path x \<noteq> None"
  shows "\<exists>st'. assign_all env user ids organizationId (Some orgName) st =
           (\<lparr>status = 200,
             body = JObj [(''success'', JBool True),
                          (''message'',
                           JStr (''Successfully assigned ''
                                 @ string_of_nat
                                     (length (filter (\<lambda>i. doc_get (devices st) i \<noteq> None)
                                                (addressed ids)))
                                 @ '' devices'')),
                          (''updatedCount'',
                           JNum (of_nat
                                   (length (filter (\<lambda>i. doc_get (devices st) i \<noteq> None)
                                              (addressed ids)))))]\<rparr>,
            st')
         \<and> list_all2 (\<lambda>(j, d) (j', d').
                        j' = j \<and> (if j \<in> set (addressed ids)
                                  then assigned env user (or_default organizationId JNull) orgName d d'
                                  else d' = d))
             (devices st) (devices st')
         \<and> organizations st' = organizations st \<and> gyms st' = gyms st
         \<and> audit_logs st' = audit_logs st"
proof -
  let ?ref = "or_default organizationId JNull"
  let ?found = "filter (\<lambda>i. doc_get (devices st) i \<noteq> None) (addressed ids)"
  from stage_updates_existing [OF ids, of env user st ?ref orgName "[]"]
  obtain news where news:
    "stage_updates env user st ?ref (Some orgName) ids [] = Inr news"
    "map fst news = ?found"
    "\<forall>(i, u) \<in> set news. \<exists>k. u = assignment env user ?ref orgName k"
    by auto
  let ?st' = "st\<lparr>devices := commit news (devices st)\<rparr>"
  from news(2) have count: "length (map fst news) = length ?found"
    by simp
  have answer: "assign_all env user ids organizationId (Some orgName) st =
           (\<lparr>status = 200,
             body = JObj [(''success'', JBool True),
                          (''message'',
                           JStr (''Successfully assigned '' @ string_of_nat (length ?found)
                                 @ '' devices'')),
                          (''updatedCount'', JNum (of_nat (length ?found)))]\<rparr>,
            ?st')"
    using news(1) count by (simp add: assign_all_def Let_def)
  have staged: "fst ` set news = {i \<in> set (addressed ids). doc_get (devices st) i \<noteq> None}"
    using news(2) by (metis set_map set_filter)
  have each: "j' = j \<and> (if j \<in> set (addressed ids) then assigned env user ?ref orgName d d'
                         else d' = d)"
    if "(j, d) \<in> set (devices st)" and "(j', d') = (j, apply_staged news j d)" for j d j' d'
  proof -
    from that(1) have "doc_get (devices st) j \<noteq> None"
      by (rule stored_exists)
    then have "(j \<in> fst ` set news) = (j \<in> set (addressed ids))"
      using staged by simp
    with apply_staged_assigned [OF news(3), of j d] that(2) show ?thesis
      by auto
  qed
  have "list_all2 (\<lambda>(j, d) (j', d').
                     j' = j \<and> (if j \<in> set (addressed ids)
                               then assigned env user ?ref orgName d d' else d' = d))
          (devices st) (commit news (devices st))"
    unfolding commit_pointwise list_all2_map2 list_all2_same
    using each by auto
  with answer show ?thesis
    by (intro exI [of _ ?st']) simp
qed

text \<open>A batch that could not be staged in full is not committed at all; so it is with a
  list that holds a value the store's client refuses.\<close>

lemma assign_all_failed:
  "stage_updates env user st (or_default organizationId JNull) organizationName deviceIds []
     = Inl err \<Longrightarrow>
   assign_all env user deviceIds organizationId organizationName st
     = (failed env ''Failed to assign devices'' err, st)"
  by (simp add: assign_all_def)

lemma stage_updates_refused:
  "x \<in> set ids \<Longrightarrow> doc_path x = None \<Longrightarrow>
   stage_updates env user st orgRef (Some orgName) ids staged = Inl Invalid_document_path"
  by (induction ids arbitrary: staged) (auto split: option.splits)

text \<open>An array of ids with no \<^verbatim>\<open>/\<close> in them addresses the devices of these ids.\<close>

lemma addressed_plain:
  "\<forall>s \<in> set ss. s \<noteq> [] \<and> CHR ''/'' \<notin> set s \<Longrightarrow> addressed (map JStr ss) = ss"
  by (induction ss) (simp_all add: addressed_def doc_path_plain)

text \<open>
  C7, as the claim states it, fails on a list that holds, beside the id of a stored device,
  a value that the store's client refuses as a document path: for
  \<^verbatim>\<open>deviceIds: ["dev1", "dev2/x"]\<close> the loop throws at the second value, the handler
  answers 500, and the batch is not committed, so the stored device \<^verbatim>\<open>dev1\<close> is not
  updated.
\<close>

theorem bulk_assign_refused_id:
  "doc_get (devices sample_store) ''dev1'' = Some treadmill
   \<and> doc_get (devices sample_store) ''dev2/x'' = None
   \<and> post_devices_bulk_assign sample_env sample_user
        [(''deviceIds'', JArr [JStr ''dev1'', JStr ''dev2/x'']),
         (''organizationId'', JStr ''org2'')] sample_store
     = (\<lparr>status = 500,
         body = JObj [(''error'', JStr ''Failed to assign devices''),
                      (''message'', JStr ''sdk error'')]\<rparr>,
        sample_store)"
proof -
  have paths: "doc_path (JStr ''dev1'') = Some [''dev1'']" "doc_path (JStr ''org2'') = Some [''org2'']"
    "doc_path (JStr ''dev2/x'') = None"
    by (simp_all add: doc_path_plain) (simp add: doc_path_def split_def startsWith_def)
  have stored: "doc_get (devices sample_store) ''dev1'' = Some treadmill"
    "doc_get (devices sample_store) ''dev2/x'' = None"
    "organization_at sample_store [''org2''] = Some globex"
    "obj_get globex ''name'' = Some (JStr ''Globex'')"
    by (simp_all add: sample_store_def doc_get_def organization_at_def globex_def obj_get_def)
  have "stage_updates sample_env sample_user sample_store
          (or_default (Some (JStr ''org2'')) JNull) (Some (JStr ''Globex''))
          [JStr ''dev1'', JStr ''dev2/x''] [] = Inl Invalid_document_path"
    using paths(3) by (intro stage_updates_refused [of "JStr ''dev2/x''"]) simp_all
  then have "assign_all sample_env sample_user [JStr ''dev1'', JStr ''dev2/x'']
               (Some (JStr ''org2'')) (Some (JStr ''Globex'')) sample_store
             = (failed sample_env ''Failed to assign devices'' Invalid_document_path, sample_store)"
    by (rule assign_all_failed)
  then have "post_devices_bulk_assign sample_env sample_user
        [(''deviceIds'', JArr [JStr ''dev1'', JStr ''dev2/x'']),
         (''organizationId'', JStr ''org2'')] sample_store
     = (failed sample_env ''Failed to assign devices'' Invalid_document_path, sample_store)"
    using paths(2) stored(3,4) by (simp add: post_devices_bulk_assign_def obj_get_def)
  with stored(1,2) show ?thesis
    by (simp add: failed_def sample_env_def)
qed

text \<open>
  C7, amended.  A bulk assignment whose \<^verbatim>\<open>deviceIds\<close> is a non-empty array of values
  that the store's client accepts as document paths, and whose \<^verbatim>\<open>organizationId\<close>
  is either not supplied (falsy) or the path of a stored document that has a name, is
  answered 200.  \<^verbatim>\<open>updatedCount\<close> is the number of the listed values that address
  stored devices.  The device collection keeps its ids and their order: no document
  appears for a value that addresses none.  Every stored device that a listed value
  addresses holds the organization reference (null when none was supplied), the
  organization's name (\<^verbatim>\<open>Unassigned\<close> when none was supplied), the caller's uid and
  a reading of the clock, and is otherwise as before; every other device, and every other
  collection, is unchanged.  The writes are staged during the loop and applied by the one
  \<open>commit\<close> after it; what other readers see while the store applies them is outside
  this model.
\<close>

theorem bulk_assign_existing_only:
  assumes ids: "obj_get b ''deviceIds'' = Some (JArr ids)" "ids \<noteq> []"
      "\<forall>x \<in> set ids. doc_path x \<noteq> None"
    and target:
      "(\<not> truthy_opt (obj_get b ''organizationId'')
          \<and> orgRef = JNull \<and> orgName = JStr ''Unassigned'')
       \<or> (\<exists>path org. obj_get b ''organizationId'' = Some orgRef \<and> truthy orgRef
             \<and> doc_path orgRef = Some path \<and> organization_at st path = Some org
             \<and> obj_get org ''name'' = Some orgName)"
  shows "\<exists>st'. post_devices_bulk_assign env user b st =
           (\<lparr>status = 200,
             body = JObj [(''success'', JBool True),
                          (''message'',
                           JStr (''Successfully assigned ''
                                 @ string_of_nat
                                     (length (filter (\<lambda>i. doc_get (devices st) i \<noteq> None)
                                                (addressed ids)))
                                 @ '' devices'')),
                          (''updatedCount'',
                           JNum (of_nat
                                   (length (filter (\<lambda>i. doc_get (devices st) i \<noteq> None)
                                              (addressed ids)))))]\<rparr>,
            st')
         \<and> list_all2 (\<lambda>(j, d) (j', d').
                        j' = j \<and> (if j \<in> set (addressed ids)
                                  then assigned env user orgRef orgName d d'
                                  else d' = d))
             (devices st) (devices st')
         \<and> organizations st' = organizations st \<and> gyms st' = gyms st
         \<and> audit_logs st' = audit_logs st"
proof -
  from ids(2) obtain x xs where list: "ids = x # xs"
    by (cases ids) auto
  from target show ?thesis
  proof (elim disjE conjE exE)
    assume none: "\<not> truthy_opt (obj_get b ''organizationId'')"
      and ref: "orgRef = JNull" and name: "orgName = JStr ''Unassigned''"
    from none ref have ref': "or_default (obj_get b ''organizationId'') JNull = orgRef"
      by (cases "obj_get b ''organizationId''") (simp_all add: or_default_def)
    have post: "post_devices_bulk_assign env user b st =
            assign_all env user ids (obj_get b ''organizationId'') (Some orgName) st"
      using ids(1) none list name by (simp add: post_devices_bulk_assign_def Let_def)
    from assign_all_existing [OF ids(3), of env user "obj_get b ''organizationId''" orgName st]
    show ?thesis
      unfolding post ref' .
  next
    fix path org
    assume some: "obj_get b ''organizationId'' = Some orgRef" and truthy: "truthy orgRef"
      and path: "doc_path orgRef = Some path"
      and org: "organization_at st path = Some org"
      and name: "obj_get org ''name'' = Some orgName"
    from some truthy have ref': "or_default (obj_get b ''organizationId'') JNull = orgRef"
      by (simp add: or_default_def)
    have post: "post_devices_bulk_assign env user b st =
            assign_all env user ids (obj_get b ''organizationId'') (Some orgName) st"
      using ids(1) some truthy path org name list
      by (simp add: post_devices_bulk_assign_def Let_def)
    from assign_all_existing [OF ids(3), of env user "obj_get b ''organizationId''" orgName st]
    show ?thesis
      unfolding post ref' .
  qed
qed

text \<open>The scenario of the specification, one id of a stored device and one of none; the id
  of the stored device is written with a trailing \<^verbatim>\<open>/\<close>, which the client drops.\<close>

theorem bulk_assign_existing_only_witness:
  "obj_get [(''deviceIds'', JArr [JStr ''dev2/'', JStr ''dev7'']), (''organizationId'', JStr ''org2'')]
     ''deviceIds'' = Some (JArr [JStr ''dev2/'', JStr ''dev7''])
   \<and> addressed [JStr ''dev2/'', JStr ''dev7''] = [''dev2'', ''dev7'']
   \<and> organization_at sample_store [''org2''] = Some globex
   \<and> obj_get globex ''name'' = Some (JStr ''Globex'')
   \<and> doc_get (devices sample_store) ''dev2'' = Some bike
   \<and> doc_get (devices sample_store) ''dev7'' = None
   \<and> (\<exists>st'. post_devices_bulk_assign sample_env sample_user
               [(''deviceIds'', JArr [JStr ''dev2/'', JStr ''dev7'']),
                (''organizationId'', JStr ''org2'')] sample_store =
           (\<lparr>status = 200,
             body = JObj [(''success'', JBool True),
                          (''message'', JStr ''Successfully assigned 1 devices''),
                          (''updatedCount'', JNum 1)]\<rparr>,
            st')
         \<and> list_all2 (\<lambda>(j, d) (j', d').
                        j' = j \<and> (if j \<in> set [''dev2'', ''dev7'']
                                  then assigned sample_env sample_user (JStr ''org2'')
                                         (JStr ''Globex'') d d'
                                  else d' = d))
             (devices sample_store) (devices st')
         \<and> organizations st' = organizations sample_store \<and> gyms st' = gyms sample_store
         \<and> audit_logs st' = audit_logs sample_store)"
proof -
  let ?b = "[(''deviceIds'', JArr [JStr ''dev2/'', JStr ''dev7'']),
             (''organizationId'', JStr ''org2'')]"
  have paths: "doc_path (JStr ''dev2/'') = Some [''dev2'']"
    "doc_path (JStr ''dev7'') = Some [''dev7'']" "doc_path (JStr ''org2'') = Some [''org2'']"
    by (simp_all add: doc_path_def split_def startsWith_def)
  then have listed: "addressed [JStr ''dev2/'', JStr ''dev7''] = [''dev2'', ''dev7'']"
    by (simp add: addressed_def)
  have ids: "obj_get ?b ''deviceIds'' = Some (JArr [JStr ''dev2/'', JStr ''dev7''])"
    "[JStr ''dev2/'', JStr ''dev7''] \<noteq> []"
    "\<forall>x \<in> set [JStr ''dev2/'', JStr ''dev7'']. doc_path x \<noteq> None"
    using paths by (simp_all add: obj_get_def)
  have org: "organization_at sample_store [''org2''] = Some globex"
    "obj_get globex ''name'' = Some (JStr ''Globex'')"
    by (simp_all add: organization_at_def sample_store_def doc_get_def globex_def obj_get_def)
  have target:
    "(\<not> truthy_opt (obj_get ?b ''organizationId'')
        \<and> JStr ''org2'' = JNull \<and> JStr ''Globex'' = JStr ''Unassigned'')
     \<or> (\<exists>path org. obj_get ?b ''organizationId'' = Some (JStr ''org2'') \<and> truthy (JStr ''org2'')
           \<and> doc_path (JStr ''org2'') = Some path \<and> organization_at sample_store path = Some org
           \<and> obj_get org ''name'' = Some (JStr ''Globex''))"
    using org paths(3) by (simp add: obj_get_def)
  have devs: "doc_get (devices sample_store) ''dev2'' = Some bike"
    "doc_get (devices sample_store) ''dev7'' = None"
    by (simp_all add: sample_store_def doc_get_def)
  then have one: "length (filter (\<lambda>i. doc_get (devices sample_store) i \<noteq> None)
                            [''dev2'', ''dev7'']) = 1"
    by simp
  have shown: "string_of_nat 1 = ''1''"
    by (simp add: string_of_nat_def)
  from bulk_assign_existing_only [OF ids target, of sample_env sample_user]
  have "\<exists>st'. post_devices_bulk_assign sample_env sample_user ?b sample_store =
           (\<lparr>status = 200,
             body = JObj [(''success'', JBool True),
                          (''message'', JStr ''Successfully assigned 1 devices''),
                          (''updatedCount'', JNum 1)]\<rparr>,
            st')
         \<and> list_all2 (\<lambda>(j, d) (j', d').
                        j' = j \<and> (if j \<in> set [''dev2'', ''dev7'']
                                  then assigned sample_env sample_user (JStr ''org2'')
                                         (JStr ''Globex'') d d'
                                  else d' = d))
             (devices sample_store) (devices st')
         \<and> organizations st' = organizations sample_store \<and> gyms st' = gyms sample_store
         \<and> audit_logs st' = audit_logs sample_store"
    unfolding listed one shown by simp
  with ids(1) listed org devs show ?thesis
    by blast
qed

end
